theory Spec2Isabelle
  imports Main "HOL-Library.Sublist" "HOL-Library.Word" "HOL-Library.AList" "HOL-Library.Multiset"
begin

section \<open>Python values used by the vault API\<close>

text \<open>
  Python \<open>str\<close> and \<open>bytes\<close> are both lists of 8-bit characters here: every string the
  modelled code inspects character by character (header names, cookie text, HTTP methods,
  audit meta keys, file names) is ASCII or Latin-1 decoded, and all other strings are only
  measured and passed on.  A \<open>dict\<close> is an association list in insertion order, written
  with \<open>AList.update\<close> (replace in place, else append) and read with \<open>map_of\<close>.
\<close>

type_synonym bytes = "char list"
type_synonym ('k, 'v) dict = "('k \<times> 'v) list"

text \<open>
  Time is counted in microseconds, so \<open>timedelta(seconds=n)\<close> is \<open>n * 1000000\<close>.  A
  \<open>utc_instant\<close> is the instant of a timezone-aware datetime in UTC, which is what
  \<open>datetime.now(UTC)\<close> returns: the session registry, the audit writer and the backup
  envelope hold only such values and never compare them with any other.

  A \<open>datetime\<close> is a Python datetime that may be naive or aware: its wall-clock fields
  (year to microsecond, counted in microseconds) and its offset from UTC, \<open>None\<close> for a
  naive value (\<open>tzinfo is None\<close>).  The instant of an aware value is its wall clock minus
  its offset.  These are the unlock throttle's \<open>next_allowed_at\<close>, an entry's
  \<open>updatedAt\<close> and an entry row's \<open>updated_at\<close>, which the code compares.
\<close>

type_synonym utc_instant = int

record datetime =
  wall :: int
  utcoffset :: "int option"

definition timedelta_seconds :: "int \<Rightarrow> int" where
  "timedelta_seconds n = n * 1000000"

text \<open>The aware value \<open>datetime.now(UTC)\<close> returns at an instant.\<close>

definition utc_datetime :: "utc_instant \<Rightarrow> datetime" where
  "utc_datetime i = \<lparr>wall = i, utcoffset = Some 0\<rparr>"

text \<open>\<open>t + timedelta\<close> moves the wall clock and keeps the timezone.\<close>

definition datetime_plus :: "datetime \<Rightarrow> int \<Rightarrow> datetime" where
  "datetime_plus t delta = t\<lparr>wall := wall t + delta\<rparr>"

text \<open>\<open>t.replace(tzinfo=UTC) if t.tzinfo is None else t\<close>\<close>

definition naive_as_utc :: "datetime \<Rightarrow> datetime" where
  "naive_as_utc t = (if utcoffset t = None then t\<lparr>utcoffset := Some 0\<rparr> else t)"

text \<open>
  What Python orders a datetime by among values of its own kind: the instant of an aware
  value, the wall clock of a naive one.
\<close>

definition order_key :: "datetime \<Rightarrow> int" where
  "order_key t = (case utcoffset t of None \<Rightarrow> wall t | Some off \<Rightarrow> wall t - off)"

text \<open>
  The record store is SQLite: a \<open>DateTime\<close> column keeps the wall-clock fields of the value
  written and not its timezone, and a row loaded by a later request (every request opens a
  new database session) carries the naive datetime with these fields.
\<close>

definition persisted :: "datetime \<Rightarrow> datetime" where
  "persisted t = t\<lparr>utcoffset := None\<rparr>"

text \<open>\<open>str.lower()\<close> on code points below 256: A-Z and the Latin-1 capitals move up by 32.\<close>

definition lower_char :: "char \<Rightarrow> char" where
  "lower_char c =
     (let n = (of_char c :: nat)
      in if (65 \<le> n \<and> n \<le> 90) \<or> (192 \<le> n \<and> n \<le> 222 \<and> n \<noteq> 215)
         then char_of (n + 32) else c)"

definition lower :: "string \<Rightarrow> string" where
  "lower s = map lower_char s"

text \<open>
  \<open>str.upper()\<close> on code points below 256.  The three characters whose upper case leaves
  Latin-1 (0xB5, 0xDF, 0xFF) are kept as they are; Python turns them into non-ASCII text or
  into \<open>SS\<close>, and neither result occurs in a method name of \<open>STATE_CHANGING_METHODS\<close>.
\<close>

definition upper_char :: "char \<Rightarrow> char" where
  "upper_char c =
     (let n = (of_char c :: nat)
      in if (97 \<le> n \<and> n \<le> 122) \<or> (224 \<le> n \<and> n \<le> 254 \<and> n \<noteq> 247)
         then char_of (n - 32) else c)"

definition upper :: "string \<Rightarrow> string" where
  "upper s = map upper_char s"

text \<open>\<open>str.strip()\<close>: the characters for which \<open>str.isspace()\<close> holds, below 256.\<close>

definition is_space :: "char \<Rightarrow> bool" where
  "is_space c =
     (let n = (of_char c :: nat)
      in (9 \<le> n \<and> n \<le> 13) \<or> (28 \<le> n \<and> n \<le> 32) \<or> n = 133 \<or> n = 160)"

definition strip :: "string \<Rightarrow> string" where
  "strip s = rev (dropWhile is_space (rev (dropWhile is_space s)))"

text \<open>\<open>s.split(sep)\<close> for a one-character separator; \<open>"".split(";")\<close> is \<open>[""]\<close>.\<close>

fun split_on :: "char \<Rightarrow> string \<Rightarrow> string list" where
  "split_on sep [] = [[]]"
| "split_on sep (c # cs) =
     (if c = sep then [] # split_on sep cs
      else (case split_on sep cs of
              [] \<Rightarrow> [[c]]
            | w # ws \<Rightarrow> (c # w) # ws))"

text \<open>\<open>s.split(sep, 1)\<close> when \<open>sep\<close> occurs in \<open>s\<close>: the text before and after its first
  occurrence.\<close>

definition split_once :: "char \<Rightarrow> string \<Rightarrow> string \<times> string" where
  "split_once sep s = (takeWhile (\<lambda>c. c \<noteq> sep) s, drop 1 (dropWhile (\<lambda>c. c \<noteq> sep) s))"

text \<open>Truthiness of an optional string: \<open>None\<close> and \<open>""\<close> are false.\<close>

fun truthy :: "string option \<Rightarrow> bool" where
  "truthy None = False"
| "truthy (Some s) = (s \<noteq> [])"

section \<open>Audit writer (app/audit.py)\<close>

text \<open>
  A value of an audit meta mapping.  \<open>MOther\<close> stands for every value that is none of
  \<open>bool\<close>, \<open>int\<close>, \<open>float\<close>, \<open>str\<close>, \<open>None\<close> (lists, dicts, other objects).  A float is
  carried as its 64-bit pattern; nothing computes with it.
\<close>

datatype meta_value =
    MNone
  | MBool bool
  | MInt int
  | MFloat "64 word"
  | MStr string
  | MOther

definition FORBIDDEN_META_HINTS :: "string list" where
  "FORBIDDEN_META_HINTS = [''password'', ''secret'', ''token'', ''key'', ''master'']"

text \<open>\<open>any(hint in lowered for hint in FORBIDDEN_META_HINTS)\<close>\<close>

definition forbidden_key :: "string \<Rightarrow> bool" where
  "forbidden_key key = list_ex (\<lambda>hint. sublist hint (lower key)) FORBIDDEN_META_HINTS"

text \<open>\<open>isinstance(value, bool | str | int | float)\<close>\<close>

fun writer_scalar :: "meta_value \<Rightarrow> bool" where
  "writer_scalar (MBool _) = True"
| "writer_scalar (MStr _) = True"
| "writer_scalar (MInt _) = True"
| "writer_scalar (MFloat _) = True"
| "writer_scalar MNone = False"
| "writer_scalar MOther = False"

definition sanitize_step :: "string \<times> meta_value \<Rightarrow> (string, meta_value) dict \<Rightarrow> (string, meta_value) dict" where
  "sanitize_step kv sanitized =
     (case kv of (key, value) \<Rightarrow>
        if forbidden_key key then sanitized
        else if writer_scalar value then AList.update key value sanitized
        else sanitized)"

definition sanitize_meta :: "(string, meta_value) dict option \<Rightarrow> (string, meta_value) dict option" where
  "sanitize_meta meta =
     (case meta of
        None \<Rightarrow> None
      | Some m \<Rightarrow>
          if m = [] then None
          else (let sanitized = fold sanitize_step m []
                in if sanitized = [] then None else Some sanitized))"

text \<open>
  The sanitizer as the specification words it: forbidden keys are dropped, the scalar values
  \<open>bool\<close>, \<open>int\<close>, \<open>float\<close>, \<open>string\<close> and \<open>null\<close> are retained, an empty result is null.
\<close>

fun spec_scalar :: "meta_value \<Rightarrow> bool" where
  "spec_scalar MOther = False"
| "spec_scalar _ = True"

definition sanitize_meta_spec :: "(string, meta_value) dict option \<Rightarrow> (string, meta_value) dict option" where
  "sanitize_meta_spec meta =
     (case meta of
        None \<Rightarrow> None
      | Some m \<Rightarrow>
          (let kept = filter (\<lambda>(key, value). \<not> forbidden_key key \<and> spec_scalar value) m
           in if kept = [] then None else Some kept))"

record audit_record =
  audit_id :: string
  audit_ts :: utc_instant
  audit_type :: string
  audit_outcome :: string
  audit_meta :: "(string, meta_value) dict option"


section \<open>Exceptions, JSON values and the external libraries\<close>

text \<open>
  Every exception the modelled code raises or lets through is a value.  \<open>AppError\<close> carries
  code, message and HTTP status.  \<open>CryptoIntegrityError\<close> subclasses \<open>ValueError\<close>, and so
  do \<open>UnicodeDecodeError\<close>, \<open>json.JSONDecodeError\<close> and argon2's \<open>InvalidHashError\<close>;
  \<open>IntegrityError\<close> is the record store refusing a duplicate primary key, \<open>HashingError\<close>
  is argon2 refusing its parameters.  \<open>TypeError\<close> is what comparing or subtracting a naive
  and an aware datetime raises, and \<open>RecursionError\<close> what \<open>json.loads\<close> raises on text
  nested deeper than the interpreter's recursion limit; neither is a \<open>ValueError\<close>.
\<close>

datatype exn =
    ValueError string
  | CryptoIntegrityError string
  | UnicodeDecodeError
  | JSONDecodeError
  | RecursionError
  | TypeError
  | InvalidHashError
  | HashingError
  | IntegrityError
  | AppError string string nat

text \<open>What \<open>except ValueError\<close> catches.\<close>

fun is_ValueError :: "exn \<Rightarrow> bool" where
  "is_ValueError (ValueError _) = True"
| "is_ValueError (CryptoIntegrityError _) = True"
| "is_ValueError UnicodeDecodeError = True"
| "is_ValueError JSONDecodeError = True"
| "is_ValueError InvalidHashError = True"
| "is_ValueError _ = False"

text \<open>What \<open>except CryptoIntegrityError\<close> catches.\<close>

fun is_CryptoIntegrityError :: "exn \<Rightarrow> bool" where
  "is_CryptoIntegrityError (CryptoIntegrityError _) = True"
| "is_CryptoIntegrityError _ = False"

text \<open>What \<open>except json.JSONDecodeError\<close> catches.\<close>

fun is_JSONDecodeError :: "exn \<Rightarrow> bool" where
  "is_JSONDecodeError JSONDecodeError = True"
| "is_JSONDecodeError _ = False"

text \<open>
  \<open>a < b\<close> and \<open>a - b\<close> on datetimes: Python raises \<open>TypeError\<close> when one is naive and the
  other aware, and otherwise compares, or subtracts, what it orders them by.
\<close>

definition datetime_less :: "datetime \<Rightarrow> datetime \<Rightarrow> exn + bool" where
  "datetime_less a b =
     (if (utcoffset a = None) \<noteq> (utcoffset b = None) then Inl TypeError
      else Inr (order_key a < order_key b))"

definition datetime_minus :: "datetime \<Rightarrow> datetime \<Rightarrow> exn + int" where
  "datetime_minus a b =
     (if (utcoffset a = None) \<noteq> (utcoffset b = None) then Inl TypeError
      else Inr (order_key a - order_key b))"

datatype json =
    JNull
  | JBool bool
  | JInt int
  | JFloat "64 word"
  | JStr string
  | JArr "json list"
  | JObj "(string \<times> json) list"

section \<open>Schemas (app/schemas.py)\<close>

text \<open>\<open>Entry\<close>; its fields \<open>id\<close> and \<open>notes\<close> are \<open>entry_id\<close> and \<open>entry_notes\<close>.\<close>

record Entry =
  entry_id :: string
  title :: string
  url :: "string option"
  username :: string
  password :: string
  entry_notes :: "string option"
  tags :: "string list"
  favorite :: bool
  updatedAt :: datetime

text \<open>\<open>EntrySummary\<close>; its fields \<open>id\<close>, \<open>title\<close>, \<open>username\<close>, \<open>url\<close>, \<open>favorite\<close>,
  \<open>updatedAt\<close> carry the prefix \<open>s_\<close>.\<close>

record EntrySummary =
  s_id :: string
  s_title :: string
  s_username :: string
  s_url :: "string option"
  s_favorite :: bool
  s_updatedAt :: datetime

record SettingsModel =
  autoLockMinutes :: int
  clipboardClearSeconds :: int
  requireReauthForCopy :: bool

record BackupImportPreviewResponse =
  added :: nat
  updated :: nat
  skipped :: nat
  errors :: "string list"

text \<open>
  The backup models of app/backup.py.  \<open>BackupKDFParams.parallelism\<close>,
  \<open>BackupCipherPayload.nonce\<close> and \<open>.ciphertext\<close> (base64 text) and
  \<open>BackupEnvelope.note\<close> carry a prime.
\<close>

record BackupKDFParams =
  memoryCost :: int
  timeCost :: int
  parallelism' :: int

record BackupCipherPayload =
  nonce' :: string
  ciphertext' :: string

record BackupEnvelope =
  version :: int
  createdAt :: utc_instant
  kdfParams :: "BackupKDFParams option"
  salt :: "string option"
  export :: BackupCipherPayload
  note' :: string

record BackupBundle =
  entries :: "Entry list"
  settings :: SettingsModel
  exportedAt :: utc_instant

section \<open>Library interface\<close>

record Argon2Params =
  memory_cost :: int
  time_cost :: int
  parallelism :: int
  hash_len :: nat
  salt_len :: nat

definition DEFAULT_ARGON2_PARAMS :: Argon2Params where
  "DEFAULT_ARGON2_PARAMS =
     \<lparr>memory_cost = 65536, time_cost = 3, parallelism = 4, hash_len = 32, salt_len = 16\<rparr>"

text \<open>\<open>Argon2Params(memory_cost=m, time_cost=t, parallelism=p)\<close> with the dataclass defaults.\<close>

definition Argon2Params_of :: "int \<Rightarrow> int \<Rightarrow> int \<Rightarrow> Argon2Params" where
  "Argon2Params_of m t p =
     \<lparr>memory_cost = m, time_cost = t, parallelism = p, hash_len = 32, salt_len = 16\<rparr>"

datatype verify_outcome = VerifyTrue | VerifyMismatch | VerifyInvalidHash

text \<open>
  The library functions the code calls (cryptography, argon2-cffi, json, base64, codecs).
  They are parameters of the model; each field is the call as the source makes it:
  \<^item> \<open>aesgcm_encrypt key nonce data aad\<close> and \<open>aesgcm_decrypt key nonce data aad\<close>, where
    \<open>None\<close> is \<open>InvalidTag\<close>;
  \<^item> \<open>hash_secret_raw secret salt time_cost memory_cost parallelism hash_len\<close> with
    \<open>Type.ID\<close>, where \<open>None\<close> is argon2 refusing the parameters;
  \<^item> \<open>hkdf_sha256 length info ikm\<close> for \<open>HKDF(SHA256, length, salt=None, info).derive(ikm)\<close>;
  \<^item> \<open>hasher_hash params password\<close> and \<open>hasher_verify hash password\<close> for
    \<open>PasswordHasher\<close>;
  \<^item> \<open>json_dumps\<close> is \<open>json.dumps(_, sort_keys=True, separators=(",", ":"),
    ensure_ascii=False)\<close>; \<open>utf8_decode\<close> and \<open>b64decode\<close> (with \<open>validate=True\<close>)
    return \<open>None\<close> where the library raises;
  \<^item> \<open>json_loads\<close> is \<open>json.loads\<close>: it returns the value, or raises.  What it raises
    on text that is not JSON is \<open>JSONDecodeError\<close>, but not always: on text nested deeper
    than the recursion limit it raises \<open>RecursionError\<close>, and on an integer literal of
    more digits than the interpreter's limit for integer strings a plain \<open>ValueError\<close>;
  \<^item> \<open>isoformat\<close> writes a datetime as JSON text; \<open>entry_dump\<close> and \<open>bundle_dump\<close> are
    pydantic's \<open>model_dump(mode="json")\<close>, and \<open>entry_validate\<close>, \<open>bundle_validate\<close>,
    \<open>envelope_validate\<close> its \<open>model_validate\<close> on the models of app/schemas.py and
    app/backup.py, with \<open>None\<close> for \<open>ValidationError\<close>.  The field constraints of
    these models (lengths, URL scheme, tag pattern) are checked inside \<open>model_validate\<close>;
    no property below depends on which values they admit.
\<close>

record lib =
  aesgcm_encrypt :: "bytes \<Rightarrow> bytes \<Rightarrow> bytes \<Rightarrow> bytes \<Rightarrow> bytes"
  aesgcm_decrypt :: "bytes \<Rightarrow> bytes \<Rightarrow> bytes \<Rightarrow> bytes \<Rightarrow> bytes option"
  hash_secret_raw :: "bytes \<Rightarrow> bytes \<Rightarrow> int \<Rightarrow> int \<Rightarrow> int \<Rightarrow> nat \<Rightarrow> bytes option"
  hkdf_sha256 :: "nat \<Rightarrow> bytes \<Rightarrow> bytes \<Rightarrow> bytes"
  hasher_hash :: "Argon2Params \<Rightarrow> string \<Rightarrow> string"
  hasher_verify :: "string \<Rightarrow> string \<Rightarrow> verify_outcome"
  utf8_encode :: "string \<Rightarrow> bytes"
  utf8_decode :: "bytes \<Rightarrow> string option"
  json_dumps :: "json \<Rightarrow> string"
  json_loads :: "string \<Rightarrow> exn + json"
  b64encode :: "bytes \<Rightarrow> string"
  b64decode :: "string \<Rightarrow> bytes option"
  isoformat :: "datetime \<Rightarrow> string"
  entry_dump :: "Entry \<Rightarrow> json"
  entry_validate :: "json \<Rightarrow> Entry option"
  bundle_dump :: "BackupBundle \<Rightarrow> json"
  bundle_validate :: "json \<Rightarrow> BackupBundle option"
  envelope_validate :: "json \<Rightarrow> BackupEnvelope option"

text \<open>
  What a request reads from outside the program: successive readings of the UTC clock
  (\<open>datetime.now(UTC)\<close>), the operating system's random bytes (\<open>os.urandom\<close>) and the
  random identifiers (\<open>uuid4()\<close>, \<open>secrets.token_urlsafe(32)\<close>).  Each read consumes from
  its tape.
\<close>

record world =
  clock :: "nat \<Rightarrow> utc_instant"
  entropy :: "nat \<Rightarrow> char"
  idents :: "nat \<Rightarrow> string"

definition datetime_now :: "world \<Rightarrow> utc_instant \<times> world" where
  "datetime_now w = (clock w 0, w\<lparr>clock := (\<lambda>i. clock w (Suc i))\<rparr>)"

definition os_urandom :: "nat \<Rightarrow> world \<Rightarrow> bytes \<times> world" where
  "os_urandom n w = (map (entropy w) [0..<n], w\<lparr>entropy := (\<lambda>i. entropy w (i + n))\<rparr>)"

definition fresh_ident :: "world \<Rightarrow> string \<times> world" where
  "fresh_ident w = (idents w 0, w\<lparr>idents := (\<lambda>i. idents w (Suc i))\<rparr>)"

section \<open>Crypto primitives (app/crypto.py)\<close>

definition AES_GCM_NONCE_BYTES :: nat where
  "AES_GCM_NONCE_BYTES = 12"

definition AES_GCM_AAD :: bytes where
  "AES_GCM_AAD = ''local-vault-entry-v1''"

record EncryptedPayload =
  nonce :: bytes
  ciphertext :: bytes

definition generate_argon2_salt :: "nat \<Rightarrow> world \<Rightarrow> exn + (bytes \<times> world)" where
  "generate_argon2_salt len w =
     (if len < 16 then Inl (ValueError ''Salt length must be at least 16 bytes.'')
      else Inr (os_urandom len w))"

definition hash_password_verifier :: "lib \<Rightarrow> string \<Rightarrow> Argon2Params \<Rightarrow> string" where
  "hash_password_verifier L pw params = hasher_hash L params pw"

definition verify_password :: "lib \<Rightarrow> string \<Rightarrow> string \<Rightarrow> exn + bool" where
  "verify_password L pw verifier_hash =
     (case hasher_verify L verifier_hash pw of
        VerifyTrue \<Rightarrow> Inr True
      | VerifyMismatch \<Rightarrow> Inr False
      | VerifyInvalidHash \<Rightarrow> Inl InvalidHashError)"

definition derive_master_key_raw :: "lib \<Rightarrow> string \<Rightarrow> bytes \<Rightarrow> Argon2Params \<Rightarrow> exn + bytes" where
  "derive_master_key_raw L pw salt_bytes params =
     (if \<not> (12 \<le> length pw \<and> length pw \<le> 128)
      then Inl (ValueError ''Master password must be between 12 and 128 characters.'')
      else if length salt_bytes < 16
      then Inl (ValueError ''Argon2 salt must be at least 16 bytes.'')
      else (case hash_secret_raw L (utf8_encode L pw) salt_bytes
                   (time_cost params) (memory_cost params) (parallelism params) 32 of
              None \<Rightarrow> Inl HashingError
            | Some raw \<Rightarrow> Inr raw))"

definition derive_key :: "lib \<Rightarrow> bytes \<Rightarrow> bytes \<Rightarrow> exn + bytes" where
  "derive_key L master_key context =
     (if length master_key \<noteq> 32 then Inl (ValueError ''Master key must be 32 bytes.'')
      else Inr (hkdf_sha256 L 32 context master_key))"

definition derive_enc_key :: "lib \<Rightarrow> bytes \<Rightarrow> exn + bytes" where
  "derive_enc_key L master_key = derive_key L master_key ''vault/enc_key/v1''"

definition derive_audit_key :: "lib \<Rightarrow> bytes \<Rightarrow> exn + bytes" where
  "derive_audit_key L master_key = derive_key L master_key ''vault/audit_key/v1''"

definition derive_backup_key :: "lib \<Rightarrow> bytes \<Rightarrow> exn + bytes" where
  "derive_backup_key L master_key = derive_key L master_key ''vault/backup_key/v1''"

definition canonical_json :: "lib \<Rightarrow> json \<Rightarrow> bytes" where
  "canonical_json L data = utf8_encode L (json_dumps L data)"

definition encrypt_json :: "lib \<Rightarrow> bytes \<Rightarrow> json \<Rightarrow> world \<Rightarrow> exn + (EncryptedPayload \<times> world)" where
  "encrypt_json L enc_key obj w =
     (if length enc_key \<noteq> 32 then Inl (ValueError ''Encryption key must be 32 bytes.'')
      else (case os_urandom AES_GCM_NONCE_BYTES w of (nonce_bytes, w') \<Rightarrow>
              Inr (\<lparr>nonce = nonce_bytes,
                    ciphertext = aesgcm_encrypt L enc_key nonce_bytes (canonical_json L obj) AES_GCM_AAD\<rparr>,
                   w')))"

definition decrypt_json :: "lib \<Rightarrow> bytes \<Rightarrow> bytes \<Rightarrow> bytes \<Rightarrow> exn + json" where
  "decrypt_json L enc_key nonce_bytes ciphertext_bytes =
     (if length enc_key \<noteq> 32 then Inl (ValueError ''Encryption key must be 32 bytes.'')
      else if length nonce_bytes \<noteq> AES_GCM_NONCE_BYTES
      then Inl (ValueError ''AES-GCM nonce must be 12 bytes.'')
      else (case aesgcm_decrypt L enc_key nonce_bytes ciphertext_bytes AES_GCM_AAD of
              None \<Rightarrow> Inl (CryptoIntegrityError ''Ciphertext integrity check failed.'')
            | Some plaintext \<Rightarrow>
                (case utf8_decode L plaintext of
                   None \<Rightarrow> Inl UnicodeDecodeError
                 | Some text \<Rightarrow>
                     (case json_loads L text of
                        Inl e \<Rightarrow>
                          if is_JSONDecodeError e
                          then Inl (CryptoIntegrityError ''Decrypted payload is invalid.'')
                          else Inl e
                      | Inr obj \<Rightarrow> Inr obj))))"


section \<open>Session registry (app/sessions.py)\<close>

record SessionData =
  token :: string
  csrf_token :: string
  enc_key :: bytes
  created_at :: utc_instant
  last_seen :: utc_instant

text \<open>\<open>idle_timeout\<close> is the \<open>timedelta\<close> in microseconds.\<close>

record SessionStore =
  idle_timeout :: int
  sessions :: "(string, SessionData) dict"

definition SessionStore_init :: "int \<Rightarrow> SessionStore" where
  "SessionStore_init idle_timeout_seconds =
     \<lparr>idle_timeout = timedelta_seconds idle_timeout_seconds, sessions = []\<rparr>"

definition create_session ::
  "SessionStore \<Rightarrow> bytes \<Rightarrow> world \<Rightarrow> exn + (SessionData \<times> SessionStore \<times> world)" where
  "create_session store key w =
     (if length key \<noteq> 32 then Inl (ValueError ''Session encryption key must be 32 bytes.'')
      else (case datetime_now w of (now, w1) \<Rightarrow>
            case fresh_ident w1 of (tok, w2) \<Rightarrow>
            case fresh_ident w2 of (csrf, w3) \<Rightarrow>
              (let session = \<lparr>token = tok, csrf_token = csrf, enc_key = key,
                              created_at = now, last_seen = now\<rparr>
               in Inr (session,
                       store\<lparr>sessions := AList.update tok session (sessions store)\<rparr>,
                       w3))))"

definition get_session ::
  "SessionStore \<Rightarrow> string option \<Rightarrow> world \<Rightarrow> SessionData option \<times> SessionStore \<times> world" where
  "get_session store tok w =
     (if \<not> truthy tok then (None, store, w)
      else (case datetime_now w of (now, w') \<Rightarrow>
            case map_of (sessions store) (the tok) of
              None \<Rightarrow> (None, store, w')
            | Some session \<Rightarrow>
                if now - last_seen session > idle_timeout store
                then (None, store\<lparr>sessions := AList.delete (the tok) (sessions store)\<rparr>, w')
                else (let touched = session\<lparr>last_seen := now\<rparr>
                      in (Some touched,
                          store\<lparr>sessions := AList.update (the tok) touched (sessions store)\<rparr>,
                          w'))))"

definition peek_session ::
  "SessionStore \<Rightarrow> string option \<Rightarrow> world \<Rightarrow> SessionData option \<times> SessionStore \<times> world" where
  "peek_session store tok w =
     (if \<not> truthy tok then (None, store, w)
      else (case datetime_now w of (now, w') \<Rightarrow>
            case map_of (sessions store) (the tok) of
              None \<Rightarrow> (None, store, w')
            | Some session \<Rightarrow>
                if now - last_seen session > idle_timeout store
                then (None, store\<lparr>sessions := AList.delete (the tok) (sessions store)\<rparr>, w')
                else (Some session, store, w')))"

definition destroy_session :: "SessionStore \<Rightarrow> string option \<Rightarrow> SessionStore" where
  "destroy_session store tok =
     (if \<not> truthy tok then store
      else store\<lparr>sessions := AList.delete (the tok) (sessions store)\<rparr>)"

section \<open>Cookies and responses (app/security.py, app/errors.py)\<close>

definition SESSION_COOKIE_NAME :: string where
  "SESSION_COOKIE_NAME = ''session_token''"

definition CSRF_COOKIE_NAME :: string where
  "CSRF_COOKIE_NAME = ''csrf_token''"

definition CSRF_HEADER_NAME :: string where
  "CSRF_HEADER_NAME = ''X-CSRF-Token''"

text \<open>
  \<open>SetCookie key value httponly max_age\<close> is \<open>response.set_cookie\<close> (always with
  \<open>secure=False\<close>, \<open>samesite="lax"\<close>, \<open>path="/"\<close>); \<open>DeleteCookie key\<close> is
  \<open>response.delete_cookie(key, path="/")\<close>.
\<close>

datatype cookie_op =
    SetCookie string string bool int
  | DeleteCookie string

definition set_session_cookies :: "SessionData \<Rightarrow> int \<Rightarrow> cookie_op list" where
  "set_session_cookies session max_age_seconds =
     [SetCookie SESSION_COOKIE_NAME (token session) True max_age_seconds,
      SetCookie CSRF_COOKIE_NAME (csrf_token session) False max_age_seconds]"

definition clear_session_cookies :: "cookie_op list" where
  "clear_session_cookies = [DeleteCookie SESSION_COOKIE_NAME, DeleteCookie CSRF_COOKIE_NAME]"

text \<open>
  What the ASGI scope and the framework give the code about a request: the scope type,
  method (\<open>http_method\<close>), path and raw header pairs, which the middleware reads, and
  \<open>request.cookies\<close>, the framework's own parse of the cookie header, which the route
  handlers read.
\<close>

record request =
  scope_type :: string
  http_method :: string
  path :: string
  headers :: "(bytes \<times> bytes) list"
  cookies :: "(string, string) dict"

text \<open>\<open>build_error_response(status_code, code, message)\<close>\<close>

record error_response =
  err_status :: nat
  err_code :: string
  err_message :: string

definition build_error_response :: "nat \<Rightarrow> string \<Rightarrow> string \<Rightarrow> error_response" where
  "build_error_response status_code code message =
     \<lparr>err_status = status_code, err_code = code, err_message = message\<rparr>"

text \<open>
  The registered exception handlers: an \<open>AppError\<close> is answered with its own status, code
  and message, any other exception of a handler with 500 \<open>INTERNAL_ERROR\<close>.
\<close>

fun exception_response :: "exn \<Rightarrow> error_response" where
  "exception_response (AppError code message status_code) =
     build_error_response status_code code message"
| "exception_response _ = build_error_response 500 ''INTERNAL_ERROR'' ''Unexpected error.''"

section \<open>Request gate (app/middleware.py)\<close>

definition STATE_CHANGING_METHODS :: "string list" where
  "STATE_CHANGING_METHODS = [''POST'', ''PUT'', ''DELETE'', ''PATCH'']"

definition CSRF_EXEMPT_PATHS :: "string list" where
  "CSRF_EXEMPT_PATHS =
     [''/vault/setup'', ''/vault/unlock'', ''/health'', ''/openapi.json'', ''/docs'',
      ''/docs/oauth2-redirect'', ''/redoc'']"

definition parse_cookies_step :: "string \<Rightarrow> (string, string) dict \<Rightarrow> (string, string) dict" where
  "parse_cookies_step item result =
     (let chunk = strip item
      in if chunk = [] \<or> CHR ''='' \<notin> set chunk then result
         else (case split_once CHR ''='' chunk of (key, value) \<Rightarrow>
                 AList.update (strip key) (strip value) result))"

definition parse_cookies :: "string \<Rightarrow> (string, string) dict" where
  "parse_cookies raw_cookie_header =
     (if raw_cookie_header = [] then []
      else fold parse_cookies_step (split_on CHR '';'' raw_cookie_header) [])"

text \<open>\<open>{k.decode("latin1").lower(): v.decode("latin1") for k, v in headers_raw}\<close>\<close>

definition headers_dict :: "(bytes \<times> bytes) list \<Rightarrow> (string, string) dict" where
  "headers_dict headers_raw = fold (\<lambda>(k, v) d. AList.update (lower k) v d) headers_raw []"

text \<open>The locals \<open>cookie_header\<close>, \<open>session_token\<close>, \<open>csrf_cookie\<close>, \<open>csrf_header\<close> of
  \<open>CSRFMiddleware.__call__\<close>.\<close>

definition cookie_header_of :: "request \<Rightarrow> string" where
  "cookie_header_of req =
     (case map_of (headers_dict (headers req)) ''cookie'' of None \<Rightarrow> [] | Some v \<Rightarrow> v)"

definition session_token_of :: "request \<Rightarrow> string option" where
  "session_token_of req = map_of (parse_cookies (cookie_header_of req)) SESSION_COOKIE_NAME"

definition csrf_cookie_of :: "request \<Rightarrow> string option" where
  "csrf_cookie_of req = map_of (parse_cookies (cookie_header_of req)) CSRF_COOKIE_NAME"

definition csrf_header_of :: "request \<Rightarrow> string option" where
  "csrf_header_of req = map_of (headers_dict (headers req)) (lower CSRF_HEADER_NAME)"

text \<open>\<open>Forward\<close>: the request is handed to the wrapped application; \<open>Reject\<close>: the
  middleware answers itself.\<close>

datatype gate = Forward | Reject error_response

definition CSRFMiddleware ::
  "request \<Rightarrow> SessionStore \<Rightarrow> world \<Rightarrow> gate \<times> SessionStore \<times> world" where
  "CSRFMiddleware req store w =
     (if scope_type req \<noteq> ''http'' then (Forward, store, w)
      else (let meth = upper (http_method req); p = path req
            in if meth = ''OPTIONS'' \<or> meth \<notin> set STATE_CHANGING_METHODS \<or> p \<in> set CSRF_EXEMPT_PATHS
               then (Forward, store, w)
               else if \<not> truthy (session_token_of req)
               then (Reject (build_error_response 401 ''UNAUTHORIZED'' ''Authentication required.''),
                     store, w)
               else (case get_session store (session_token_of req) w of (found, store', w') \<Rightarrow>
                       (case found of
                          None \<Rightarrow>
                            (Reject (build_error_response 401 ''UNAUTHORIZED'' ''Authentication required.''),
                             store', w')
                        | Some session \<Rightarrow>
                            if \<not> truthy (csrf_cookie_of req) \<or> \<not> truthy (csrf_header_of req)
                            then (Reject (build_error_response 403 ''CSRF_INVALID'' ''Request not allowed.''),
                                  store', w')
                            else if csrf_cookie_of req \<noteq> csrf_header_of req
                                    \<or> Some (csrf_token session) \<noteq> csrf_header_of req
                            then (Reject (build_error_response 403 ''CSRF_INVALID'' ''Request not allowed.''),
                                  store', w')
                            else (Forward, store', w')))))"

section \<open>Record store (app/models.py) and audit writes\<close>

text \<open>
  The rows of the record store.  The singleton tables hold at most the row with \<open>id = 1\<close>,
  so each is an optional row.  \<open>failed_attempts\<close> is a natural number: the column starts at
  0 and the code only resets or increments it.  The timestamps the store itself maintains
  (\<open>created_at\<close>, and \<open>updated_at\<close> of the singletons) are not read by the modelled code.
  \<open>EntryRecord\<close>'s columns \<open>id\<close>, \<open>nonce\<close>, \<open>ciphertext\<close>, \<open>updated_at\<close> carry the prefix
  \<open>row_\<close>.
\<close>

record VaultMetadata =
  schema_version :: int
  hint :: "string option"
  argon2_salt :: "bytes option"
  argon2_memory_cost :: "int option"
  argon2_time_cost :: "int option"
  argon2_parallelism :: "int option"
  pw_verifier :: "string option"

record UnlockThrottleRecord =
  failed_attempts :: nat
  next_allowed_at :: "datetime option"

record SettingsRecord =
  auto_lock_minutes :: int
  clipboard_clear_seconds :: int
  require_reauth_for_copy :: bool

record EntryRecord =
  row_id :: string
  row_nonce :: bytes
  row_ciphertext :: bytes
  row_updated_at :: datetime

text \<open>
  \<open>db_entries\<close> lists the entry rows in the order \<open>select(EntryRecord)\<close> returns them.
  The store below is the committed store, as a request finds it: its datetimes are what
  SQLite kept of the values written, so a handler that commits a row it has written leaves
  the row with its datetime \<open>persisted\<close>.
\<close>

record db =
  db_metadata :: "VaultMetadata option"
  db_throttle :: "UnlockThrottleRecord option"
  db_settings :: "SettingsRecord option"
  db_entries :: "EntryRecord list"
  db_audit :: "audit_record list"

definition commit_throttle :: "UnlockThrottleRecord \<Rightarrow> UnlockThrottleRecord" where
  "commit_throttle t = t\<lparr>next_allowed_at := map_option persisted (next_allowed_at t)\<rparr>"

definition commit_row :: "EntryRecord \<Rightarrow> EntryRecord" where
  "commit_row row = row\<lparr>row_updated_at := persisted (row_updated_at row)\<rparr>"

text \<open>
  A request runs on the committed store, the session registry and the outside world.  A
  handler returns the store as committed when it ends: what it wrote before \<open>db.commit()\<close>,
  and the store it started from when it raises before committing.
\<close>

record state =
  st_db :: db
  st_sessions :: SessionStore
  st_world :: world

definition write_audit_event ::
  "db \<Rightarrow> world \<Rightarrow> string \<Rightarrow> string \<Rightarrow> (string, meta_value) dict option \<Rightarrow> db \<times> world" where
  "write_audit_event d w event_type outcome meta =
     (case fresh_ident w of (uid, w1) \<Rightarrow>
      case datetime_now w1 of (ts, w2) \<Rightarrow>
        (d\<lparr>db_audit := db_audit d @
              [\<lparr>audit_id = uid, audit_ts = ts, audit_type = event_type,
                audit_outcome = outcome, audit_meta = sanitize_meta meta\<rparr>]\<rparr>,
         w2))"

section \<open>Responses and configuration\<close>

datatype body =
    NoBody
  | GenericOkResponse bool
  | EntrySummaryList "EntrySummary list"
  | ImportPreview BackupImportPreviewResponse

record response =
  status_code :: nat
  cookie_ops :: "cookie_op list"
  body :: body

text \<open>\<open>app_session_idle_minutes\<close> of app/config.py (default 15).\<close>

record config =
  app_session_idle_minutes :: int

section \<open>Vault lifecycle (app/routes/vault.py)\<close>

definition get_or_create_unlock_throttle :: "db \<Rightarrow> UnlockThrottleRecord \<times> db" where
  "get_or_create_unlock_throttle d =
     (case db_throttle d of
        None \<Rightarrow>
          (let throttle = \<lparr>failed_attempts = 0, next_allowed_at = None\<rparr>
           in (throttle, d\<lparr>db_throttle := Some throttle\<rparr>))
      | Some throttle \<Rightarrow> (throttle, d))"

definition get_or_create_settings :: "db \<Rightarrow> SettingsRecord \<times> db" where
  "get_or_create_settings d =
     (case db_settings d of
        None \<Rightarrow>
          (let app_settings = \<lparr>auto_lock_minutes = 5, clipboard_clear_seconds = 15,
                                require_reauth_for_copy = True\<rparr>
           in (app_settings, d\<lparr>db_settings := Some app_settings\<rparr>))
      | Some app_settings \<Rightarrow> (app_settings, d))"

text \<open>\<open>metadata is None or not metadata.pw_verifier\<close>\<close>

definition no_verifier :: "VaultMetadata option \<Rightarrow> bool" where
  "no_verifier metadata =
     (case metadata of None \<Rightarrow> True | Some md \<Rightarrow> \<not> truthy (pw_verifier md))"

definition vault_setup :: "lib \<Rightarrow> string \<Rightarrow> string option \<Rightarrow> state \<Rightarrow> (exn + response) \<times> state" where
  "vault_setup L masterPassword hint_text st =
     (let d = st_db st; w = st_world st; metadata = db_metadata d
      in if \<not> no_verifier metadata
         then (case write_audit_event d w ''VAULT_SETUP'' ''FAILURE''
                      (Some [(''reason'', MStr ''already_initialized'')]) of
                 (d1, w1) \<Rightarrow>
                   (Inl (AppError ''VAULT_EXISTS'' ''Vault already initialized.'' 409),
                    st\<lparr>st_db := d1, st_world := w1\<rparr>))
         else (case generate_argon2_salt (salt_len DEFAULT_ARGON2_PARAMS) w of
                 Inl e \<Rightarrow> (Inl e, st)
               | Inr (salt_bytes, w1) \<Rightarrow>
                   (let verifier = hash_password_verifier L masterPassword DEFAULT_ARGON2_PARAMS;
                        md0 = (case metadata of
                                 None \<Rightarrow> \<lparr>schema_version = 1, hint = None, argon2_salt = None,
                                            argon2_memory_cost = None, argon2_time_cost = None,
                                            argon2_parallelism = None, pw_verifier = None\<rparr>
                               | Some md \<Rightarrow> md);
                        md1 = md0\<lparr>schema_version := 1, hint := hint_text, argon2_salt := Some salt_bytes,
                                  argon2_memory_cost := Some (memory_cost DEFAULT_ARGON2_PARAMS),
                                  argon2_time_cost := Some (time_cost DEFAULT_ARGON2_PARAMS),
                                  argon2_parallelism := Some (parallelism DEFAULT_ARGON2_PARAMS),
                                  pw_verifier := Some verifier\<rparr>;
                        d1 = d\<lparr>db_metadata := Some md1\<rparr>;
                        d2 = snd (get_or_create_settings d1);
                        d3 = snd (get_or_create_unlock_throttle d2)
                    in (case write_audit_event d3 w1 ''VAULT_SETUP'' ''SUCCESS''
                               (Some [(''hint_set'', MBool (truthy hint_text))]) of
                          (d4, w2) \<Rightarrow>
                            (Inr \<lparr>status_code = 201, cookie_ops = [], body = GenericOkResponse True\<rparr>,
                             st\<lparr>st_db := d4, st_world := w2\<rparr>)))))"

text \<open>
  \<open>throttle.next_allowed_at and now < throttle.next_allowed_at\<close>: a datetime is always
  truthy, and the comparison raises when \<open>next_allowed_at\<close> is naive, \<open>now\<close> being aware.
\<close>

definition throttled :: "UnlockThrottleRecord \<Rightarrow> datetime \<Rightarrow> exn + bool" where
  "throttled throttle now =
     (case next_allowed_at throttle of None \<Rightarrow> Inr False | Some t \<Rightarrow> datetime_less now t)"

text \<open>\<open>min(300, 2 ** min(throttle.failed_attempts, 8))\<close>\<close>

definition delay_seconds :: "nat \<Rightarrow> nat" where
  "delay_seconds attempts = min 300 (2 ^ min attempts 8)"

text \<open>Lines 163 to 170 of \<open>vault_unlock\<close>: the stored parameters, the master key and the
  session encryption key.\<close>

definition unlock_session_key :: "lib \<Rightarrow> string \<Rightarrow> VaultMetadata \<Rightarrow> exn + bytes" where
  "unlock_session_key L masterPassword md =
     (let params = Argon2Params_of (the (argon2_memory_cost md)) (the (argon2_time_cost md))
                     (the (argon2_parallelism md))
      in (case derive_master_key_raw L masterPassword (the (argon2_salt md)) params of
            Inl e \<Rightarrow> Inl e
          | Inr master_key \<Rightarrow> derive_enc_key L master_key))"

definition vault_unlock :: "lib \<Rightarrow> config \<Rightarrow> string \<Rightarrow> state \<Rightarrow> (exn + response) \<times> state" where
  "vault_unlock L cfg masterPassword st =
     (let d = st_db st; w = st_world st; metadata = db_metadata d
      in if no_verifier metadata
         then (case write_audit_event d w ''VAULT_UNLOCK'' ''FAILURE''
                      (Some [(''reason'', MStr ''vault_missing'')]) of
                 (d1, w1) \<Rightarrow>
                   (Inl (AppError ''VAULT_NOT_INITIALIZED'' ''Vault not initialized.'' 400),
                    st\<lparr>st_db := d1, st_world := w1\<rparr>))
         else (let md = the metadata
               in if argon2_salt md = None \<or> argon2_memory_cost md = None
                     \<or> argon2_time_cost md = None \<or> argon2_parallelism md = None
                  then (Inl (AppError ''VAULT_INVALID'' ''Vault unavailable.'' 500), st)
                  else (case get_or_create_unlock_throttle d of (throttle, d1) \<Rightarrow>
                        case datetime_now w of (now_instant, w1) \<Rightarrow>
                         (let now = utc_datetime now_instant
                          in case throttled throttle now of
                            Inl e \<Rightarrow> (Inl e, st\<lparr>st_world := w1\<rparr>)
                          | Inr blocked \<Rightarrow>
                          if blocked
                          then (case datetime_minus (the (next_allowed_at throttle)) now of
                                  Inl e \<Rightarrow> (Inl e, st\<lparr>st_world := w1\<rparr>)
                                | Inr remaining \<Rightarrow>
                                (let retry_after_seconds = max 1 (remaining div 1000000)
                                in (case write_audit_event d1 w1 ''VAULT_UNLOCK'' ''FAILURE''
                                           (Some [(''reason'', MStr ''throttled''),
                                                  (''retry_after_seconds'', MInt retry_after_seconds)]) of
                                      (d2, w2) \<Rightarrow>
                                        (Inl (AppError ''RATE_LIMITED''
                                                ''Too many attempts. Try again later.'' 429),
                                         st\<lparr>st_db := d2, st_world := w2\<rparr>))))
                          else (case verify_password L masterPassword (the (pw_verifier md)) of
                                  Inl e \<Rightarrow> (Inl e, st\<lparr>st_world := w1\<rparr>)
                                | Inr verified \<Rightarrow>
                                    if \<not> verified
                                    then (let attempts = failed_attempts throttle + 1;
                                              delay = delay_seconds attempts;
                                              bumped = throttle\<lparr>failed_attempts := attempts,
                                                next_allowed_at :=
                                                  Some (datetime_plus now (timedelta_seconds (int delay)))\<rparr>;
                                              d2 = d1\<lparr>db_throttle := Some (commit_throttle bumped)\<rparr>
                                          in (case write_audit_event d2 w1 ''VAULT_UNLOCK'' ''FAILURE''
                                                     (Some [(''failed_attempts'', MInt (int attempts)),
                                                            (''delay_seconds'', MInt (int delay))]) of
                                                (d3, w2) \<Rightarrow>
                                                  (Inl (AppError ''UNAUTHORIZED'' ''Unlock failed.'' 401),
                                                   st\<lparr>st_db := d3, st_world := w2\<rparr>)))
                                    else (case unlock_session_key L masterPassword md of
                                            Inl e \<Rightarrow> (Inl e, st\<lparr>st_world := w1\<rparr>)
                                          | Inr key \<Rightarrow>
                                              (let reset = throttle\<lparr>failed_attempts := 0,
                                                             next_allowed_at := None\<rparr>;
                                                   d2 = d1\<lparr>db_throttle := Some (commit_throttle reset)\<rparr>
                                               in (case create_session (st_sessions st) key w1 of
                                                     Inl e \<Rightarrow> (Inl e, st\<lparr>st_world := w1\<rparr>)
                                                   | Inr (active_session, store', w2) \<Rightarrow>
                                                     (case write_audit_event d2 w2 ''VAULT_UNLOCK''
                                                             ''SUCCESS'' None of
                                                        (d3, w3) \<Rightarrow>
                                                          (Inr \<lparr>status_code = 200,
                                                                cookie_ops = set_session_cookies active_session
                                                                  (app_session_idle_minutes cfg * 60),
                                                                body = GenericOkResponse True\<rparr>,
                                                           \<lparr>st_db = d3, st_sessions = store',
                                                            st_world = w3\<rparr>))))))))))"

definition vault_lock :: "request \<Rightarrow> state \<Rightarrow> (exn + response) \<times> state" where
  "vault_lock req st =
     (let session_token = map_of (cookies req) SESSION_COOKIE_NAME;
          store' = destroy_session (st_sessions st) session_token
      in (case write_audit_event (st_db st) (st_world st) ''VAULT_LOCK'' ''SUCCESS'' None of
            (d1, w1) \<Rightarrow>
              (Inr \<lparr>status_code = 204, cookie_ops = clear_session_cookies, body = NoBody\<rparr>,
               \<lparr>st_db = d1, st_sessions = store', st_world = w1\<rparr>)))"



section \<open>Entry service (app/routes/entries.py)\<close>

definition require_unlocked_session ::
  "request \<Rightarrow> SessionStore \<Rightarrow> world \<Rightarrow> (exn + SessionData) \<times> SessionStore \<times> world" where
  "require_unlocked_session req store w =
     (case get_session store (map_of (cookies req) SESSION_COOKIE_NAME) w of
        (found, store', w') \<Rightarrow>
          (case found of
             None \<Rightarrow> (Inl (AppError ''UNAUTHORIZED'' ''Authentication required.'' 401), store', w')
           | Some session \<Rightarrow> (Inr session, store', w')))"

definition decrypt_entry :: "lib \<Rightarrow> EntryRecord \<Rightarrow> bytes \<Rightarrow> exn + Entry" where
  "decrypt_entry L row key =
     (case decrypt_json L key (row_nonce row) (row_ciphertext row) of
        Inl e \<Rightarrow>
          if is_CryptoIntegrityError e
          then Inl (AppError ''ENTRY_UNAVAILABLE'' ''Entry unavailable.'' 500)
          else Inl e
      | Inr payload \<Rightarrow>
          (case entry_validate L payload of
             None \<Rightarrow> Inl (AppError ''ENTRY_UNAVAILABLE'' ''Entry unavailable.'' 500)
           | Some entry \<Rightarrow> Inr entry))"

definition to_summary :: "Entry \<Rightarrow> EntrySummary" where
  "to_summary entry =
     \<lparr>s_id = entry_id entry, s_title = title entry, s_username = username entry,
      s_url = url entry, s_favorite = favorite entry, s_updatedAt = updatedAt entry\<rparr>"

text \<open>The loop \<open>for row in rows: entries.append(_decrypt_entry(row, session.enc_key))\<close>; the
  first failure ends it.\<close>

fun decrypt_rows :: "lib \<Rightarrow> bytes \<Rightarrow> EntryRecord list \<Rightarrow> exn + Entry list" where
  "decrypt_rows L key [] = Inr []"
| "decrypt_rows L key (row # rows) =
     (case decrypt_entry L row key of
        Inl e \<Rightarrow> Inl e
      | Inr entry \<Rightarrow>
          (case decrypt_rows L key rows of
             Inl e \<Rightarrow> Inl e
           | Inr rest \<Rightarrow> Inr (entry # rest)))"

text \<open>
  \<open>entries.sort(key=lambda item: item.updatedAt, reverse=True)\<close>.  When the keys are all
  naive or all aware, this is a stable sort of the reversed list, reversed again.  When some
  key is naive and another aware, the sort has to compare a naive key with an aware one at
  some point, whatever its order of comparisons, and that comparison raises \<open>TypeError\<close>.
\<close>

definition sort_updatedAt_reverse :: "Entry list \<Rightarrow> exn + Entry list" where
  "sort_updatedAt_reverse es =
     (if list_all (\<lambda>e. utcoffset (updatedAt e) = None) es
         \<or> list_all (\<lambda>e. utcoffset (updatedAt e) \<noteq> None) es
      then Inr (rev (sort_key (\<lambda>e. order_key (updatedAt e)) (rev es)))
      else Inl TypeError)"

definition list_entries :: "lib \<Rightarrow> request \<Rightarrow> state \<Rightarrow> (exn + response) \<times> state" where
  "list_entries L req st =
     (case require_unlocked_session req (st_sessions st) (st_world st) of
        (Inl e, store', w') \<Rightarrow> (Inl e, st\<lparr>st_sessions := store', st_world := w'\<rparr>)
      | (Inr session, store', w') \<Rightarrow>
          (case decrypt_rows L (enc_key session) (db_entries (st_db st)) of
             Inl e \<Rightarrow> (Inl e, st\<lparr>st_sessions := store', st_world := w'\<rparr>)
           | Inr es \<Rightarrow>
               (case sort_updatedAt_reverse es of
                  Inl e \<Rightarrow> (Inl e, st\<lparr>st_sessions := store', st_world := w'\<rparr>)
                | Inr sorted_entries \<Rightarrow>
                    (let summaries = map to_summary sorted_entries
                     in (case write_audit_event (st_db st) w' ''ENTRY_LIST'' ''SUCCESS''
                                (Some [(''count'', MInt (int (length summaries)))]) of
                           (d1, w1) \<Rightarrow>
                             (Inr \<lparr>status_code = 200, cookie_ops = [],
                                   body = EntrySummaryList summaries\<rparr>,
                              \<lparr>st_db = d1, st_sessions = store', st_world = w1\<rparr>))))))"

text \<open>The response model \<open>EntrySummary\<close> written as a JSON object, field by field.\<close>

definition EntrySummary_dump :: "lib \<Rightarrow> EntrySummary \<Rightarrow> (string, json) dict" where
  "EntrySummary_dump L s =
     [(''id'', JStr (s_id s)),
      (''title'', JStr (s_title s)),
      (''username'', JStr (s_username s)),
      (''url'', (case s_url s of None \<Rightarrow> JNull | Some u \<Rightarrow> JStr u)),
      (''favorite'', JBool (s_favorite s)),
      (''updatedAt'', JStr (isoformat L (s_updatedAt s)))]"

section \<open>Backup envelope codec (app/backup.py)\<close>

definition b64encode_str :: "lib \<Rightarrow> bytes \<Rightarrow> string" where
  "b64encode_str L data = b64encode L data"

definition b64decode_strict :: "lib \<Rightarrow> string \<Rightarrow> exn + bytes" where
  "b64decode_strict L v =
     (case b64decode L v of
        None \<Rightarrow> Inl (ValueError ''Invalid backup encoding.'')
      | Some data \<Rightarrow> Inr data)"

definition build_backup_envelope ::
  "lib \<Rightarrow> Entry list \<Rightarrow> SettingsModel \<Rightarrow> bytes \<Rightarrow> string option \<Rightarrow> world
     \<Rightarrow> exn + (BackupEnvelope \<times> world)" where
  "build_backup_envelope L es app_settings session_enc_key export_password w =
     (if length session_enc_key \<noteq> 32 then Inl (ValueError ''Session key unavailable.'')
      else (case datetime_now w of (exported, w1) \<Rightarrow>
             (let bundle = \<lparr>entries = es, settings = app_settings, exportedAt = exported\<rparr>
              in (case (if truthy export_password
                        then (case generate_argon2_salt (salt_len DEFAULT_ARGON2_PARAMS) w1 of
                                Inl e \<Rightarrow> Inl e
                              | Inr (salt_bytes, w2) \<Rightarrow>
                                  (case derive_master_key_raw L (the export_password) salt_bytes
                                          DEFAULT_ARGON2_PARAMS of
                                     Inl e \<Rightarrow> Inl e
                                   | Inr master_key \<Rightarrow>
                                       (case derive_backup_key L master_key of
                                          Inl e \<Rightarrow> Inl e
                                        | Inr backup_key \<Rightarrow>
                                            Inr (backup_key,
                                                 Some \<lparr>memoryCost = memory_cost DEFAULT_ARGON2_PARAMS,
                                                        timeCost = time_cost DEFAULT_ARGON2_PARAMS,
                                                        parallelism' = parallelism DEFAULT_ARGON2_PARAMS\<rparr>,
                                                 Some (b64encode_str L salt_bytes), w2))))
                        else Inr (session_enc_key, None, None, w1)) of
                    Inl e \<Rightarrow> Inl e
                  | Inr (backup_key, kdf_params, salt_b64, w3) \<Rightarrow>
                      (case encrypt_json L backup_key (bundle_dump L bundle) w3 of
                         Inl e \<Rightarrow> Inl e
                       | Inr (encrypted, w4) \<Rightarrow>
                           (case datetime_now w4 of (created, w5) \<Rightarrow>
                              Inr (\<lparr>version = 1, createdAt = created, kdfParams = kdf_params,
                                    salt = salt_b64,
                                    export = \<lparr>nonce' = b64encode_str L (nonce encrypted),
                                               ciphertext' = b64encode_str L (ciphertext encrypted)\<rparr>,
                                    note' = ''encrypted-only''\<rparr>,
                                   w5)))))))"

definition parse_backup_json :: "lib \<Rightarrow> bytes \<Rightarrow> exn + BackupEnvelope" where
  "parse_backup_json L raw_bytes =
     (case utf8_decode L raw_bytes of
        None \<Rightarrow> Inl (ValueError ''Invalid backup file.'')
      | Some raw_text \<Rightarrow>
          (case json_loads L raw_text of
             Inl e \<Rightarrow>
               if is_JSONDecodeError e then Inl (ValueError ''Invalid backup file.'') else Inl e
           | Inr parsed \<Rightarrow>
               (case envelope_validate L parsed of
                  None \<Rightarrow> Inl (ValueError ''Invalid backup file.'')
                | Some envelope \<Rightarrow> Inr envelope)))"

definition resolve_import_key ::
  "lib \<Rightarrow> BackupEnvelope \<Rightarrow> bytes \<Rightarrow> string option \<Rightarrow> exn + bytes" where
  "resolve_import_key L envelope session_enc_key import_password =
     (if kdfParams envelope = None \<and> salt envelope = None then Inr session_enc_key
      else if kdfParams envelope = None \<or> salt envelope = None
      then Inl (ValueError ''Invalid backup file.'')
      else if \<not> truthy import_password then Inl (ValueError ''Import password required.'')
      else (case b64decode_strict L (the (salt envelope)) of
              Inl e \<Rightarrow> Inl e
            | Inr salt_bytes \<Rightarrow>
                (let params = Argon2Params_of (memoryCost (the (kdfParams envelope)))
                                (timeCost (the (kdfParams envelope)))
                                (parallelism' (the (kdfParams envelope)))
                 in (case derive_master_key_raw L (the import_password) salt_bytes params of
                       Inl e \<Rightarrow> Inl e
                     | Inr master_key \<Rightarrow> derive_backup_key L master_key))))"

definition load_backup_bundle ::
  "lib \<Rightarrow> BackupEnvelope \<Rightarrow> bytes \<Rightarrow> string option \<Rightarrow> exn + BackupBundle" where
  "load_backup_bundle L envelope session_enc_key import_password =
     (case resolve_import_key L envelope session_enc_key import_password of
        Inl e \<Rightarrow> Inl e
      | Inr key \<Rightarrow>
          (case b64decode_strict L (nonce' (export envelope)) of
             Inl e \<Rightarrow> Inl e
           | Inr nonce_bytes \<Rightarrow>
               (case b64decode_strict L (ciphertext' (export envelope)) of
                  Inl e \<Rightarrow> Inl e
                | Inr ciphertext_bytes \<Rightarrow>
                    (case decrypt_json L key nonce_bytes ciphertext_bytes of
                       Inl e \<Rightarrow>
                         if is_CryptoIntegrityError e
                         then Inl (ValueError ''Backup decryption failed.'')
                         else Inl e
                     | Inr decrypted \<Rightarrow>
                         (case bundle_validate L decrypted of
                            None \<Rightarrow> Inl (ValueError ''Invalid backup file.'')
                          | Some bundle \<Rightarrow> Inr bundle)))))"


section \<open>Backup routes (app/routes/backup.py)\<close>

text \<open>The uploaded file: its name, if any, and what \<open>await file.read()\<close> returns.\<close>

record UploadFile =
  filename :: "string option"
  file_bytes :: bytes

text \<open>
  \<open>incoming_updated > existing_updated\<close> of \<open>_compute_import_summary\<close> and
  \<open>apply_import_backup\<close>, after each side that is naive has been given \<open>tzinfo=UTC\<close>: both
  are aware, and their instants are compared.
\<close>

definition newer_than :: "datetime \<Rightarrow> datetime \<Rightarrow> bool" where
  "newer_than incoming_updated existing_updated =
     (order_key (naive_as_utc existing_updated) < order_key (naive_as_utc incoming_updated))"

text \<open>\<open>{row.id: row for row in existing_rows}\<close>\<close>

definition existing_map_of :: "EntryRecord list \<Rightarrow> (string, EntryRecord) dict" where
  "existing_map_of rows = fold (\<lambda>row m. AList.update (row_id row) row m) rows []"

fun count_incoming ::
  "(string, EntryRecord) dict \<Rightarrow> Entry list \<Rightarrow> nat \<times> nat \<times> nat \<Rightarrow> nat \<times> nat \<times> nat" where
  "count_incoming existing_map [] counts = counts"
| "count_incoming existing_map (incoming # rest) (n_added, n_updated, n_skipped) =
     (case map_of existing_map (entry_id incoming) of
        None \<Rightarrow> count_incoming existing_map rest (n_added + 1, n_updated, n_skipped)
      | Some existing \<Rightarrow>
          if newer_than (updatedAt incoming) (row_updated_at existing)
          then count_incoming existing_map rest (n_added, n_updated + 1, n_skipped)
          else count_incoming existing_map rest (n_added, n_updated, n_skipped + 1))"

definition compute_import_summary ::
  "db \<Rightarrow> Entry list \<Rightarrow> nat \<times> nat \<times> nat \<times> string list \<times> (string, EntryRecord) dict" where
  "compute_import_summary d incoming_entries =
     (let existing_map = existing_map_of (db_entries d)
      in (case count_incoming existing_map incoming_entries (0, 0, 0) of
            (n_added, n_updated, n_skipped) \<Rightarrow>
              (n_added, n_updated, n_skipped, [], existing_map)))"

definition invalid_backup_response :: response where
  "invalid_backup_response =
     \<lparr>status_code = 200, cookie_ops = [],
      body = ImportPreview \<lparr>added = 0, updated = 0, skipped = 0,
                             errors = [''Invalid backup file.'']\<rparr>\<rparr>"

text \<open>\<open>not file.filename or not file.filename.lower().endswith(".json")\<close>\<close>

definition bad_filename :: "UploadFile \<Rightarrow> bool" where
  "bad_filename file =
     (\<not> truthy (filename file) \<or> \<not> suffix ''.json'' (lower (the (filename file))))"

definition summary_meta :: "nat \<Rightarrow> nat \<Rightarrow> nat \<Rightarrow> nat \<Rightarrow> (string, meta_value) dict" where
  "summary_meta n_added n_updated n_skipped n_errors =
     [(''added'', MInt (int n_added)), (''updated'', MInt (int n_updated)),
      (''skipped'', MInt (int n_skipped)), (''errors'', MInt (int n_errors))]"

definition preview_import_backup ::
  "lib \<Rightarrow> request \<Rightarrow> UploadFile \<Rightarrow> string option \<Rightarrow> state \<Rightarrow> (exn + response) \<times> state" where
  "preview_import_backup L req file pw st =
     (case require_unlocked_session req (st_sessions st) (st_world st) of
        (Inl e, store', w') \<Rightarrow> (Inl e, st\<lparr>st_sessions := store', st_world := w'\<rparr>)
      | (Inr session, store', w') \<Rightarrow>
          (let d = st_db st;
               refuse = (\<lambda>reason.
                 case write_audit_event d w' ''BACKUP_IMPORT_PREVIEW'' ''FAILURE''
                        (Some [(''reason'', MStr reason)]) of
                   (d1, w1) \<Rightarrow>
                     (Inr invalid_backup_response,
                      \<lparr>st_db = d1, st_sessions = store', st_world = w1\<rparr>));
               raise = (\<lambda>e. (Inl e, st\<lparr>st_sessions := store', st_world := w'\<rparr>))
           in if bad_filename file then refuse ''invalid_file_extension''
              else (case parse_backup_json L (file_bytes file) of
                      Inl e \<Rightarrow> if is_ValueError e then refuse ''invalid_file'' else raise e
                    | Inr envelope \<Rightarrow>
                        (case load_backup_bundle L envelope (enc_key session) pw of
                           Inl e \<Rightarrow> if is_ValueError e then refuse ''decrypt_failed'' else raise e
                         | Inr bundle \<Rightarrow>
                             (case compute_import_summary d (entries bundle) of
                                (n_added, n_updated, n_skipped, errs, existing_map) \<Rightarrow>
                                  (case write_audit_event d w' ''BACKUP_IMPORT_PREVIEW''
                                          (if errs = [] then ''SUCCESS'' else ''FAILURE'')
                                          (Some (summary_meta n_added n_updated n_skipped (length errs))) of
                                     (d1, w1) \<Rightarrow>
                                       (Inr \<lparr>status_code = 200, cookie_ops = [],
                                             body = ImportPreview
                                               \<lparr>added = n_added, updated = n_updated,
                                                skipped = n_skipped, errors = errs\<rparr>\<rparr>,
                                        \<lparr>st_db = d1, st_sessions = store', st_world = w1\<rparr>)))))))"

text \<open>
  The loop of \<open>apply_import_backup\<close> over \<open>bundle.entries\<close>.  \<open>existing_ids\<close> are the keys of
  \<open>existing_map\<close>, fixed before the loop; the rows it maps to are the session's row objects,
  so a row updated by one iteration is what a later iteration with the same id compares
  against, with the \<open>updated_at\<close> that iteration assigned.  A new row is appended to the
  pending rows.  The rows are committed after the loop.
\<close>

fun apply_entries ::
  "lib \<Rightarrow> bytes \<Rightarrow> string list \<Rightarrow> Entry list \<Rightarrow> EntryRecord list \<Rightarrow> world
     \<Rightarrow> (exn + EntryRecord list) \<times> world" where
  "apply_entries L key existing_ids [] rows w = (Inr rows, w)"
| "apply_entries L key existing_ids (incoming # rest) rows w =
     (case encrypt_json L key (entry_dump L incoming) w of
        Inl e \<Rightarrow> (Inl e, w)
      | Inr (encrypted, w') \<Rightarrow>
          if entry_id incoming \<notin> set existing_ids
          then apply_entries L key existing_ids rest
                 (rows @ [\<lparr>row_id = entry_id incoming, row_nonce = nonce encrypted,
                            row_ciphertext = ciphertext encrypted,
                            row_updated_at = updatedAt incoming\<rparr>]) w'
          else if list_ex (\<lambda>row. row_id row = entry_id incoming
                                  \<and> newer_than (updatedAt incoming) (row_updated_at row)) rows
          then apply_entries L key existing_ids rest
                 (map (\<lambda>row. if row_id row = entry_id incoming
                              then row\<lparr>row_nonce := nonce encrypted,
                                       row_ciphertext := ciphertext encrypted,
                                       row_updated_at := updatedAt incoming\<rparr>
                              else row) rows) w'
          else apply_entries L key existing_ids rest rows w')"

text \<open>The CHECK constraints of the settings table.\<close>

definition settings_constraints :: "SettingsRecord \<Rightarrow> bool" where
  "settings_constraints r =
     (auto_lock_minutes r \<ge> 1 \<and> auto_lock_minutes r \<le> 120
      \<and> clipboard_clear_seconds r \<ge> 5 \<and> clipboard_clear_seconds r \<le> 120)"

definition apply_import_backup ::
  "lib \<Rightarrow> request \<Rightarrow> UploadFile \<Rightarrow> string option \<Rightarrow> state \<Rightarrow> (exn + response) \<times> state" where
  "apply_import_backup L req file pw st =
     (case require_unlocked_session req (st_sessions st) (st_world st) of
        (Inl e, store', w') \<Rightarrow> (Inl e, st\<lparr>st_sessions := store', st_world := w'\<rparr>)
      | (Inr session, store', w') \<Rightarrow>
          (let d = st_db st;
               refuse = (\<lambda>reason.
                 case write_audit_event d w' ''BACKUP_IMPORT_APPLY'' ''FAILURE''
                        (Some [(''reason'', MStr reason)]) of
                   (d1, w1) \<Rightarrow>
                     (Inr invalid_backup_response,
                      \<lparr>st_db = d1, st_sessions = store', st_world = w1\<rparr>));
               raise = (\<lambda>e. (Inl e, st\<lparr>st_sessions := store', st_world := w'\<rparr>));
               rolled_back = (\<lambda>w2.
                 case write_audit_event d w2 ''BACKUP_IMPORT_APPLY'' ''FAILURE''
                        (Some [(''reason'', MStr ''transaction_failed'')]) of
                   (d1, w3) \<Rightarrow>
                     (Inl (AppError ''IMPORT_FAILED'' ''Import failed.'' 400),
                      \<lparr>st_db = d1, st_sessions = store', st_world = w3\<rparr>))
           in if bad_filename file then refuse ''invalid_file_extension''
              else (case (case parse_backup_json L (file_bytes file) of
                            Inl e \<Rightarrow> Inl e
                          | Inr envelope \<Rightarrow> load_backup_bundle L envelope (enc_key session) pw) of
                      Inl e \<Rightarrow> if is_ValueError e then refuse ''invalid_file'' else raise e
                    | Inr bundle \<Rightarrow>
                        (case compute_import_summary d (entries bundle) of
                           (n_added, n_updated, n_skipped, errs, existing_map) \<Rightarrow>
                             if errs \<noteq> []
                             then (case write_audit_event d w' ''BACKUP_IMPORT_APPLY'' ''FAILURE''
                                          (Some (summary_meta n_added n_updated n_skipped (length errs))) of
                                     (d1, w1) \<Rightarrow>
                                       (Inr \<lparr>status_code = 200, cookie_ops = [],
                                             body = ImportPreview
                                               \<lparr>added = n_added, updated = n_updated,
                                                skipped = n_skipped, errors = errs\<rparr>\<rparr>,
                                        \<lparr>st_db = d1, st_sessions = store', st_world = w1\<rparr>))
                             else (case apply_entries L (enc_key session) (map fst existing_map)
                                          (entries bundle) (db_entries d) w' of
                                     (Inl e, w1) \<Rightarrow> rolled_back w1
                                   | (Inr rows, w1) \<Rightarrow>
                                       (let settings_row =
                                              \<lparr>auto_lock_minutes = autoLockMinutes (settings bundle),
                                               clipboard_clear_seconds =
                                                 clipboardClearSeconds (settings bundle),
                                               require_reauth_for_copy =
                                                 requireReauthForCopy (settings bundle)\<rparr>;
                                            d1 = d\<lparr>db_entries := map commit_row rows,
                                                   db_settings := Some settings_row\<rparr>
                                        in (case write_audit_event d1 w1 ''BACKUP_IMPORT_APPLY'' ''SUCCESS''
                                                   (Some (summary_meta n_added n_updated n_skipped 0)) of
                                              (d2, w2) \<Rightarrow>
                                                if distinct (map row_id rows)
                                                   \<and> settings_constraints settings_row
                                                then (Inr \<lparr>status_code = 200, cookie_ops = [],
                                                           body = ImportPreview
                                                             \<lparr>added = n_added, updated = n_updated,
                                                              skipped = n_skipped, errors = []\<rparr>\<rparr>,
                                                      \<lparr>st_db = d2, st_sessions = store', st_world = w2\<rparr>)
                                                else rolled_back w2)))))))"

section \<open>The application (app/main.py)\<close>

text \<open>
  A request passes \<open>CSRFMiddleware\<close> before it reaches its route; what a route raises is
  answered by the registered exception handlers.  (The other two middlewares only add
  response headers.)
\<close>

datatype http = Answer response | Failure error_response

definition app_call ::
  "(request \<Rightarrow> state \<Rightarrow> (exn + response) \<times> state) \<Rightarrow> request \<Rightarrow> state \<Rightarrow> http \<times> state" where
  "app_call route req st =
     (case CSRFMiddleware req (st_sessions st) (st_world st) of
        (Reject err, store', w') \<Rightarrow> (Failure err, st\<lparr>st_sessions := store', st_world := w'\<rparr>)
      | (Forward, store', w') \<Rightarrow>
          (case route req (st\<lparr>st_sessions := store', st_world := w'\<rparr>) of
             (Inl e, st') \<Rightarrow> (Failure (exception_response e), st')
           | (Inr r, st') \<Rightarrow> (Answer r, st')))"

fun http_status :: "http \<Rightarrow> nat" where
  "http_status (Answer r) = status_code r"
| "http_status (Failure err) = err_status err"


section \<open>A reference instance of the libraries\<close>

text \<open>
  A small executable instance of \<open>lib\<close> and of the outside world, on which the handlers can
  be evaluated: tagged encryption that appends a 16-byte tag, key derivation that pads
  to the requested length, ASCII as UTF-8, and a JSON codec over a finite table of texts.
\<close>

definition ref_tag :: "bytes \<Rightarrow> bytes \<Rightarrow> bytes \<Rightarrow> bytes \<Rightarrow> bytes" where
  "ref_tag key nonce_bytes aad data =
     take 16 (take 4 key @ take 4 nonce_bytes @ take 4 aad @ take 4 (rev data)
              @ replicate 16 (CHR ''='')) "

definition ref_encrypt :: "bytes \<Rightarrow> bytes \<Rightarrow> bytes \<Rightarrow> bytes \<Rightarrow> bytes" where
  "ref_encrypt key nonce_bytes data aad = data @ ref_tag key nonce_bytes aad data"

definition ref_decrypt :: "bytes \<Rightarrow> bytes \<Rightarrow> bytes \<Rightarrow> bytes \<Rightarrow> bytes option" where
  "ref_decrypt key nonce_bytes data aad =
     (if length data < 16 then None
      else (let plain = take (length data - 16) data
            in if drop (length data - 16) data = ref_tag key nonce_bytes aad plain
               then Some plain else None))"

definition ref_pad :: "nat \<Rightarrow> bytes \<Rightarrow> bytes" where
  "ref_pad n data = take n (data @ replicate n (CHR ''0''))"

definition ref_hash_secret_raw :: "bytes \<Rightarrow> bytes \<Rightarrow> int \<Rightarrow> int \<Rightarrow> int \<Rightarrow> nat \<Rightarrow> bytes option" where
  "ref_hash_secret_raw secret salt_bytes t m p n =
     (if t < 1 \<or> p < 1 \<or> m < 8 * p then None else Some (ref_pad n (secret @ salt_bytes)))"

definition ref_hasher_verify :: "string \<Rightarrow> string \<Rightarrow> verify_outcome" where
  "ref_hasher_verify h pw =
     (if \<not> prefix ''$argon2id$'' h then VerifyInvalidHash
      else if h = ''$argon2id$'' @ pw then VerifyTrue
      else VerifyMismatch)"

definition ref_utf8_decode :: "bytes \<Rightarrow> string option" where
  "ref_utf8_decode data = (if list_all (\<lambda>c. \<not> digit7 c) data then Some data else None)"

function show_nat :: "nat \<Rightarrow> string" where
  "show_nat n = (if n < 10 then [char_of (48 + n)] else show_nat (n div 10) @ [char_of (48 + n mod 10)])"
  by pat_completeness auto
termination
  by (relation "measure id") auto

definition ref_entry_dump :: "Entry \<Rightarrow> json" where
  "ref_entry_dump e =
     JObj [(''id'', JStr (entry_id e)), (''title'', JStr (title e)),
           (''url'', (case url e of None \<Rightarrow> JNull | Some u \<Rightarrow> JStr u)),
           (''username'', JStr (username e)), (''password'', JStr (password e)),
           (''notes'', (case entry_notes e of None \<Rightarrow> JNull | Some n \<Rightarrow> JStr n)),
           (''tags'', JArr (map JStr (tags e))), (''favorite'', JBool (favorite e)),
           (''updatedAt'',
            JArr [JInt (wall (updatedAt e)),
                  (case utcoffset (updatedAt e) of None \<Rightarrow> JNull | Some off \<Rightarrow> JInt off)])]"

definition ref_bundle_dump :: "BackupBundle \<Rightarrow> json" where
  "ref_bundle_dump b =
     JObj [(''entries'', JArr (map ref_entry_dump (entries b))),
           (''settings'',
            JObj [(''autoLockMinutes'', JInt (autoLockMinutes (settings b))),
                  (''clipboardClearSeconds'', JInt (clipboardClearSeconds (settings b))),
                  (''requireReauthForCopy'', JBool (requireReauthForCopy (settings b)))]),
           (''exportedAt'', JInt (exportedAt b))]"

definition entry_email :: Entry where
  "entry_email =
     \<lparr>entry_id = ''96d95816-8f40-4e34-a50c-f286f7d0f2f0'', title = ''Email'',
      url = Some ''https://mail.example.com'', username = ''alice@example.com'',
      password = ''S3cur3!P4ss'', entry_notes = Some ''MFA enabled'',
      tags = [''mail'', ''personal''], favorite = True, updatedAt = utc_datetime 1000\<rparr>"

definition entry_bank :: Entry where
  "entry_bank =
     \<lparr>entry_id = ''0b8e4c6a-1d2f-4a3b-9c5d-7e6f8a9b0c1d'', title = ''Bank'',
      url = None, username = ''bob'', password = ''N3wS3cur3!'', entry_notes = None,
      tags = [''finance''], favorite = False, updatedAt = utc_datetime 3000\<rparr>"

definition entry_forum :: Entry where
  "entry_forum =
     \<lparr>entry_id = ''5f1c2d3e-4a5b-4c6d-8e7f-9a0b1c2d3e4f'', title = ''Forum'',
      url = Some ''http://forum.example.org'', username = ''carol'', password = ''hunter2!'',
      entry_notes = None, tags = [], favorite = False, updatedAt = utc_datetime 2000\<rparr>"

text \<open>An entry whose \<open>updatedAt\<close> carries no timezone, as an imported backup may hold it.\<close>

definition entry_wiki :: Entry where
  "entry_wiki =
     \<lparr>entry_id = ''7a2b3c4d-5e6f-4a1b-8c9d-0e1f2a3b4c5d'', title = ''Wiki'',
      url = None, username = ''dave'', password = ''Tr0ub4dor&3'', entry_notes = None,
      tags = [''work''], favorite = False,
      updatedAt = \<lparr>wall = 2500, utcoffset = None\<rparr>\<rparr>"

definition ref_settings :: SettingsModel where
  "ref_settings = \<lparr>autoLockMinutes = 5, clipboardClearSeconds = 15, requireReauthForCopy = True\<rparr>"

definition ref_entries :: "Entry list" where
  "ref_entries = [entry_email, entry_bank, entry_forum]"

definition ref_entries_mixed :: "Entry list" where
  "ref_entries_mixed = [entry_email, entry_wiki, entry_bank]"

definition ref_bundles :: "BackupBundle list" where
  "ref_bundles =
     [\<lparr>entries = [entry_email, entry_bank], settings = ref_settings, exportedAt = 7000\<rparr>,
      \<lparr>entries = [], settings = ref_settings, exportedAt = 7000\<rparr>]"

text \<open>The texts of the reference JSON codec and the values they stand for.\<close>

definition ref_json_table :: "(string \<times> json) list" where
  "ref_json_table =
     [(''null'', JNull), (''true'', JBool True), (''{\"x\":\"y\"}'', JObj [(''x'', JStr ''y'')]),
      (''{\"id\":\"96d9\"}'', ref_entry_dump entry_email),
      (''{\"id\":\"0b8e\"}'', ref_entry_dump entry_bank),
      (''{\"id\":\"5f1c\"}'', ref_entry_dump entry_forum),
      (''{\"id\":\"7a2b\"}'', ref_entry_dump entry_wiki),
      (''{\"entries\":2}'', ref_bundle_dump (ref_bundles ! 0)),
      (''{\"entries\":0}'', ref_bundle_dump (ref_bundles ! 1))]"

definition ref_json_dumps :: "json \<Rightarrow> string" where
  "ref_json_dumps v =
     (case find (\<lambda>p. snd p = v) ref_json_table of None \<Rightarrow> ''?'' | Some p \<Rightarrow> fst p)"

text \<open>
  The reference \<open>json.loads\<close> reads the texts of the table, refuses text nested deeper than
  eight brackets with \<open>RecursionError\<close> and an integer literal of more than eight digits
  with \<open>ValueError\<close>, and any other text with \<open>JSONDecodeError\<close>.
\<close>

definition ref_json_loads :: "string \<Rightarrow> exn + json" where
  "ref_json_loads text =
     (case map_of ref_json_table text of
        Some v \<Rightarrow> Inr v
      | None \<Rightarrow>
          if prefix (replicate 9 (CHR ''['')) text then Inl RecursionError
          else if 8 < length text \<and> list_all (\<lambda>c. c \<in> set ''0123456789'') text
          then Inl (ValueError ''Exceeds the limit for integer string conversion'')
          else Inl JSONDecodeError)"

definition ref_lib :: lib where
  "ref_lib =
     \<lparr>aesgcm_encrypt = ref_encrypt,
      aesgcm_decrypt = ref_decrypt,
      hash_secret_raw = ref_hash_secret_raw,
      hkdf_sha256 = (\<lambda>n info ikm. ref_pad n (info @ ikm)),
      hasher_hash = (\<lambda>params pw. ''$argon2id$'' @ pw),
      hasher_verify = ref_hasher_verify,
      utf8_encode = (\<lambda>text. text),
      utf8_decode = ref_utf8_decode,
      json_dumps = ref_json_dumps,
      json_loads = ref_json_loads,
      b64encode = (\<lambda>data. data),
      b64decode = (\<lambda>text. Some text),
      isoformat = (\<lambda>t. show_nat (nat (wall t))),
      entry_dump = ref_entry_dump,
      entry_validate = (\<lambda>j. find (\<lambda>e. ref_entry_dump e = j) (ref_entries @ [entry_wiki])),
      bundle_dump = ref_bundle_dump,
      bundle_validate = (\<lambda>j. find (\<lambda>b. ref_bundle_dump b = j) ref_bundles),
      envelope_validate = (\<lambda>j. None)\<rparr>"

definition ref_world :: world where
  "ref_world =
     \<lparr>clock = (\<lambda>i. 7000 + int i),
      entropy = (\<lambda>i. char_of (65 + i mod 26)),
      idents = (\<lambda>i. ''ident-'' @ show_nat i)\<rparr>"

definition empty_db :: db where
  "empty_db = \<lparr>db_metadata = None, db_throttle = None, db_settings = None, db_entries = [],
               db_audit = []\<rparr>"

definition ref_config :: config where
  "ref_config = \<lparr>app_session_idle_minutes = 15\<rparr>"

definition ref_key :: bytes where
  "ref_key = replicate 32 (CHR ''k'')"

definition ref_nonce :: bytes where
  "ref_nonce = replicate 12 (CHR ''n'')"


section \<open>Predicates used in the statements\<close>

text \<open>A call raised \<open>CryptoIntegrityError\<close>.\<close>

definition raises_CryptoIntegrityError :: "exn + 'a \<Rightarrow> bool" where
  "raises_CryptoIntegrityError r = (case r of Inl e \<Rightarrow> is_CryptoIntegrityError e | Inr _ \<Rightarrow> False)"

definition meta_example :: "(string, meta_value) dict" where
  "meta_example =
     [(''reason'', MStr ''throttled''), (''attempted_password'', MStr ''hunter2''),
      (''retry'', MNone), (''count'', MInt 3), (''items'', MOther)]"

text \<open>A registry holding one live session, and requests against it.\<close>

definition ref_session :: SessionData where
  "ref_session = \<lparr>token = ''tok-1'', csrf_token = ''csrf-1'', enc_key = ref_key,
                   created_at = 6000, last_seen = 6000\<rparr>"

definition ref_store :: SessionStore where
  "ref_store = \<lparr>idle_timeout = timedelta_seconds 900, sessions = [(''tok-1'', ref_session)]\<rparr>"

definition ref_state :: state where
  "ref_state = \<lparr>st_db = empty_db, st_sessions = ref_store, st_world = ref_world\<rparr>"

definition post_request :: "string \<Rightarrow> (bytes \<times> bytes) list \<Rightarrow> request" where
  "post_request p hs =
     \<lparr>scope_type = ''http'', http_method = ''POST'', path = p, headers = hs,
      cookies = parse_cookies (case map_of (headers_dict hs) ''cookie'' of None \<Rightarrow> [] | Some v \<Rightarrow> v)\<rparr>"

definition session_cookies :: "bytes \<times> bytes" where
  "session_cookies = (''Cookie'', ''session_token=tok-1; csrf_token=csrf-1'')"

definition unauthorized :: error_response where
  "unauthorized = build_error_response 401 ''UNAUTHORIZED'' ''Authentication required.''"

definition csrf_invalid :: error_response where
  "csrf_invalid = build_error_response 403 ''CSRF_INVALID'' ''Request not allowed.''"

definition lock_request :: request where
  "lock_request = post_request ''/vault/lock'' [session_cookies, (''X-CSRF-Token'', ''csrf-1'')]"

text \<open>
  A lock request with two \<open>Cookie\<close> headers that name different sessions.  The middleware
  builds a dict of the headers, so it reads the last one; \<open>request.cookies\<close> is the
  framework's parse of the first.
\<close>

definition two_cookie_request :: request where
  "two_cookie_request =
     \<lparr>scope_type = ''http'', http_method = ''POST'', path = ''/vault/lock'',
      headers = [(''cookie'', ''session_token=tok-0''),
                 (''cookie'', ''session_token=tok-1; csrf_token=csrf-1''),
                 (''x-csrf-token'', ''csrf-1'')],
      cookies = [(''session_token'', ''tok-0'')]\<rparr>"

text \<open>An initialized vault: the verifier, the salt and the KDF parameters are there, as
  \<open>vault_setup\<close> writes them.\<close>

definition vault_initialized :: "VaultMetadata option \<Rightarrow> bool" where
  "vault_initialized metadata =
     (case metadata of
        None \<Rightarrow> False
      | Some md \<Rightarrow> truthy (pw_verifier md) \<and> argon2_salt md \<noteq> None
                    \<and> argon2_memory_cost md \<noteq> None \<and> argon2_time_cost md \<noteq> None
                    \<and> argon2_parallelism md \<noteq> None)"

text \<open>The throttle row an unlock attempt works on: the stored row, or the fresh one.\<close>

definition throttle_row :: "db \<Rightarrow> UnlockThrottleRecord" where
  "throttle_row d = fst (get_or_create_unlock_throttle d)"

text \<open>The libraries return the 32 bytes \<open>vault_unlock\<close> asks them for.\<close>

definition kdf_delivers :: "lib \<Rightarrow> string \<Rightarrow> VaultMetadata \<Rightarrow> bool" where
  "kdf_delivers L pw md =
     (case hash_secret_raw L (utf8_encode L pw) (the (argon2_salt md))
             (the (argon2_time_cost md)) (the (argon2_memory_cost md))
             (the (argon2_parallelism md)) 32 of
        None \<Rightarrow> False
      | Some raw \<Rightarrow> length raw = 32 \<and> length (hkdf_sha256 L 32 ''vault/enc_key/v1'' raw) = 32)"

text \<open>The invariant of the throttle row, and a store whose throttle row, if any, has it.\<close>

definition throttle_invariant :: "UnlockThrottleRecord \<Rightarrow> bool" where
  "throttle_invariant t = (failed_attempts t = 0 \<longleftrightarrow> next_allowed_at t = None)"

definition throttle_ok :: "db \<Rightarrow> bool" where
  "throttle_ok d = (case db_throttle d of None \<Rightarrow> True | Some t \<Rightarrow> throttle_invariant t)"

text \<open>
  The reference state after setup, after one failed unlock, and ten seconds after that
  failure, when the two seconds of the first delay have passed.
\<close>

definition st_setup :: state where
  "st_setup = snd (vault_setup ref_lib ''CorrectHorseBatteryStaple!'' None ref_state)"

definition st_failed :: state where
  "st_failed = snd (vault_unlock ref_lib ref_config ''wrong-password-1'' st_setup)"

definition st_later :: state where
  "st_later = st_failed\<lparr>st_world := (st_world st_failed)\<lparr>clock := (\<lambda>i. 10007001 + int i)\<rparr>\<rparr>"

text \<open>A request of the reference session, stored rows of the reference entries, and an
  upload with a bad name.\<close>

definition session_request :: "string \<Rightarrow> string \<Rightarrow> request" where
  "session_request m p =
     \<lparr>scope_type = ''http'', http_method = m, path = p,
      headers = [session_cookies, (''X-CSRF-Token'', ''csrf-1'')],
      cookies = [(''session_token'', ''tok-1''), (''csrf_token'', ''csrf-1'')]\<rparr>"

definition ref_row :: "Entry \<Rightarrow> string \<Rightarrow> EntryRecord" where
  "ref_row e text =
     \<lparr>row_id = entry_id e, row_nonce = ref_nonce,
      row_ciphertext = ref_encrypt ref_key ref_nonce text AES_GCM_AAD,
      row_updated_at = persisted (updatedAt e)\<rparr>"

definition ref_rows :: "EntryRecord list" where
  "ref_rows = [ref_row entry_email ''{\"id\":\"96d9\"}'', ref_row entry_bank ''{\"id\":\"0b8e\"}'',
               ref_row entry_forum ''{\"id\":\"5f1c\"}'']"

definition st_entries :: state where
  "st_entries = \<lparr>st_db = empty_db\<lparr>db_entries := ref_rows\<rparr>, st_sessions = ref_store,
                 st_world = ref_world\<rparr>"

text \<open>Stored rows of entries of which one has a naive \<open>updatedAt\<close> and the others an aware
  one.\<close>

definition ref_rows_mixed :: "EntryRecord list" where
  "ref_rows_mixed =
     [ref_row entry_email ''{\"id\":\"96d9\"}'', ref_row entry_wiki ''{\"id\":\"7a2b\"}'',
      ref_row entry_bank ''{\"id\":\"0b8e\"}'']"

definition st_mixed :: state where
  "st_mixed = \<lparr>st_db = empty_db\<lparr>db_entries := ref_rows_mixed\<rparr>, st_sessions = ref_store,
               st_world = ref_world\<rparr>"

text \<open>Stored rows of which the second has been tampered with.\<close>

definition st_tampered :: state where
  "st_tampered =
     \<lparr>st_db = empty_db\<lparr>db_entries :=
                [ref_row entry_email ''{\"id\":\"96d9\"}'',
                 (ref_row entry_bank ''{\"id\":\"0b8e\"}'')\<lparr>row_ciphertext := ''tampered''\<rparr>]\<rparr>,
      st_sessions = ref_store, st_world = ref_world\<rparr>"

definition text_upload :: UploadFile where
  "text_upload = \<lparr>filename = Some ''Backup.JSON.txt'', file_bytes = ''{}''\<rparr>"

definition nameless_upload :: UploadFile where
  "nameless_upload = \<lparr>filename = None, file_bytes = ''{}''\<rparr>"

text \<open>The exception a call raised, if any.\<close>

definition raised :: "exn + 'a \<Rightarrow> exn option" where
  "raised r = (case r of Inl e \<Rightarrow> Some e | Inr _ \<Rightarrow> None)"

text \<open>
  What the backup round trip takes from the libraries: AES-GCM decrypts what it encrypted
  under the same key, nonce and associated data; strict base64 decoding inverts encoding;
  Argon2id under the default costs and HKDF return the 32 bytes asked for.
\<close>

definition lib_contract :: "lib \<Rightarrow> bool" where
  "lib_contract L =
     ((\<forall>key n data aad. length key = 32 \<and> length n = 12 \<longrightarrow>
          aesgcm_decrypt L key n (aesgcm_encrypt L key n data aad) aad = Some data)
      \<and> (\<forall>data. b64decode L (b64encode L data) = Some data)
      \<and> (\<forall>secret s. 16 \<le> length s \<longrightarrow>
            (\<exists>raw. hash_secret_raw L secret s 3 65536 4 32 = Some raw \<and> length raw = 32))
      \<and> (\<forall>info ikm. length (hkdf_sha256 L 32 info ikm) = 32))"

text \<open>
  A bundle of valid entries and settings survives serialization: its JSON dump is written
  as UTF-8 text that reads back as the same JSON, and validates to the same bundle.
\<close>

definition bundle_survives :: "lib \<Rightarrow> BackupBundle \<Rightarrow> bool" where
  "bundle_survives L b =
     (utf8_decode L (utf8_encode L (json_dumps L (bundle_dump L b)))
        = Some (json_dumps L (bundle_dump L b))
      \<and> json_loads L (json_dumps L (bundle_dump L b)) = Inr (bundle_dump L b)
      \<and> bundle_validate L (bundle_dump L b) = Some b)"


section \<open>Audit meta sanitizing\<close>

lemma update_fresh_key: "k \<notin> fst ` set al \<Longrightarrow> AList.update k v al = al @ [(k, v)]"
  by (induction al) auto

lemma fold_sanitize_step:
  "distinct (map fst m) \<Longrightarrow> fst ` set acc \<subseteq> - fst ` set m \<Longrightarrow>
   fold sanitize_step m acc
     = acc @ filter (\<lambda>(key, value). \<not> forbidden_key key \<and> writer_scalar value) m"
proof (induction m arbitrary: acc)
  case Nil
  then show ?case by simp
next
  case (Cons kv m)
  obtain k v where kv: "kv = (k, v)" by (cases kv)
  show ?case
  proof (cases "\<not> forbidden_key k \<and> writer_scalar v")
    case True
    have fresh: "k \<notin> fst ` set acc" using Cons.prems(2) kv by auto
    have step: "sanitize_step kv acc = acc @ [(k, v)]"
      using True fresh by (simp add: sanitize_step_def kv update_fresh_key)
    have "fold sanitize_step m (acc @ [(k, v)])
            = (acc @ [(k, v)]) @ filter (\<lambda>(key, value). \<not> forbidden_key key \<and> writer_scalar value) m"
      using Cons.prems True kv by (intro Cons.IH) auto
    then show ?thesis using True step kv by simp
  next
    case False
    have step: "sanitize_step kv acc = acc"
      using False by (auto simp: sanitize_step_def kv)
    have "fold sanitize_step m acc
            = acc @ filter (\<lambda>(key, value). \<not> forbidden_key key \<and> writer_scalar value) m"
      using Cons.prems kv by (intro Cons.IH) auto
    then show ?thesis using False step kv by auto
  qed
qed

lemma meta_example_distinct: "distinct (map fst meta_example)"
  by (simp add: meta_example_def)

lemma meta_example_kept:
  "filter (\<lambda>(key, value). \<not> forbidden_key key \<and> writer_scalar value) meta_example
     = [(''reason'', MStr ''throttled''), (''count'', MInt 3)]"
  by code_simp

text \<open>
  C6 (as amended).  For every meta mapping passed to the audit writer, the stored meta
  consists of exactly the pairs, in their order, whose key's lowercase form contains none of
  password, secret, token, key, master and whose value is a \<open>bool\<close>, \<open>int\<close>, \<open>float\<close> or
  \<open>str\<close>; a null value is dropped like any non-scalar value; an absent meta is stored as
  null, and so is an empty result.
\<close>

theorem sanitize_meta_retains:
  "sanitize_meta None = None
   \<and> sanitize_meta meta \<noteq> Some []
   \<and> (distinct (map fst m) \<longrightarrow>
        sanitize_meta (Some m) =
          (let kept = filter (\<lambda>(key, value). \<not> forbidden_key key \<and> writer_scalar value) m
           in if kept = [] then None else Some kept))"
proof -
  have absent: "sanitize_meta None = None"
    by (simp add: sanitize_meta_def)
  have nonempty: "sanitize_meta meta \<noteq> Some []"
    by (simp add: sanitize_meta_def Let_def split: option.splits)
  have kept: "sanitize_meta (Some m) =
          (let kept = filter (\<lambda>(key, value). \<not> forbidden_key key \<and> writer_scalar value) m
           in if kept = [] then None else Some kept)" if d: "distinct (map fst m)"
  proof -
    have f: "fold sanitize_step m []
               = filter (\<lambda>(key, value). \<not> forbidden_key key \<and> writer_scalar value) m"
      using fold_sanitize_step [OF d, of "[]"] by simp
    show ?thesis
      by (cases "m = []") (simp_all add: sanitize_meta_def f Let_def)
  qed
  from absent nonempty kept show ?thesis by blast
qed

theorem sanitize_meta_retains_witness:
  "distinct (map fst meta_example)
   \<and> sanitize_meta (Some meta_example) = Some [(''reason'', MStr ''throttled''), (''count'', MInt 3)]"
  using sanitize_meta_retains [of undefined meta_example] meta_example_distinct meta_example_kept
  by simp

text \<open>
  The claim as worded retains null values; the writer drops them: a mapping with a null
  value under a harmless key is stored without that key.
\<close>

theorem sanitize_meta_null_counterexample:
  "sanitize_meta (Some [(''attempt'', MNone), (''count'', MInt 1)]) = Some [(''count'', MInt 1)]
   \<and> sanitize_meta_spec (Some [(''attempt'', MNone), (''count'', MInt 1)])
       = Some [(''attempt'', MNone), (''count'', MInt 1)]"
  by code_simp

section \<open>Decryption outcomes\<close>

text \<open>
  C1 (as amended).  \<open>decrypt_json\<close> raises a plain \<open>ValueError\<close>, not
  \<open>CryptoIntegrityError\<close>, when the key is not 32 bytes or the nonce is not 12 bytes; with a
  32-byte key and a 12-byte nonce it raises \<open>CryptoIntegrityError\<close> when the AEAD tag does
  not verify, and when the authenticated plaintext is valid UTF-8 and \<open>json.loads\<close> rejects
  the text with \<open>JSONDecodeError\<close>; when the plaintext is valid UTF-8 and \<open>json.loads\<close>
  returns a value, that value is returned.
\<close>

theorem decrypt_json_outcomes:
  "(length k \<noteq> 32 \<longrightarrow>
      decrypt_json L k n c = Inl (ValueError ''Encryption key must be 32 bytes.''))
   \<and> (length k = 32 \<and> length n \<noteq> 12 \<longrightarrow>
      decrypt_json L k n c = Inl (ValueError ''AES-GCM nonce must be 12 bytes.''))
   \<and> (length k = 32 \<and> length n = 12 \<and> aesgcm_decrypt L k n c AES_GCM_AAD = None \<longrightarrow>
      decrypt_json L k n c = Inl (CryptoIntegrityError ''Ciphertext integrity check failed.''))
   \<and> (\<forall>plaintext text.
        length k = 32 \<and> length n = 12 \<and> aesgcm_decrypt L k n c AES_GCM_AAD = Some plaintext
        \<and> utf8_decode L plaintext = Some text \<and> json_loads L text = Inl JSONDecodeError \<longrightarrow>
        decrypt_json L k n c = Inl (CryptoIntegrityError ''Decrypted payload is invalid.''))
   \<and> (\<forall>plaintext text obj.
        length k = 32 \<and> length n = 12 \<and> aesgcm_decrypt L k n c AES_GCM_AAD = Some plaintext
        \<and> utf8_decode L plaintext = Some text \<and> json_loads L text = Inr obj \<longrightarrow>
        decrypt_json L k n c = Inr obj)"
  by (simp add: decrypt_json_def AES_GCM_NONCE_BYTES_def)

lemma ref_decrypt_no_tag:
  "length ref_key = 32 \<and> length ref_nonce = 12
   \<and> aesgcm_decrypt ref_lib ref_key ref_nonce [] AES_GCM_AAD = None"
  by code_simp

lemma ref_decrypt_not_json:
  "length ref_key = 32 \<and> length ref_nonce = 12
   \<and> aesgcm_decrypt ref_lib ref_key ref_nonce
        (ref_encrypt ref_key ref_nonce ''{oops'' AES_GCM_AAD) AES_GCM_AAD = Some ''{oops''
   \<and> utf8_decode ref_lib ''{oops'' = Some ''{oops''
   \<and> json_loads ref_lib ''{oops'' = Inl JSONDecodeError"
  by code_simp

lemma ref_decrypt_json:
  "length ref_key = 32 \<and> length ref_nonce = 12
   \<and> aesgcm_decrypt ref_lib ref_key ref_nonce
        (ref_encrypt ref_key ref_nonce ''{\"x\":\"y\"}'' AES_GCM_AAD) AES_GCM_AAD
       = Some ''{\"x\":\"y\"}''
   \<and> utf8_decode ref_lib ''{\"x\":\"y\"}'' = Some ''{\"x\":\"y\"}''
   \<and> json_loads ref_lib ''{\"x\":\"y\"}'' = Inr (JObj [(''x'', JStr ''y'')])"
  by code_simp

theorem decrypt_json_outcomes_witness:
  "decrypt_json ref_lib ''short'' ref_nonce [] = Inl (ValueError ''Encryption key must be 32 bytes.'')
   \<and> decrypt_json ref_lib ref_key ''short'' [] = Inl (ValueError ''AES-GCM nonce must be 12 bytes.'')
   \<and> decrypt_json ref_lib ref_key ref_nonce []
       = Inl (CryptoIntegrityError ''Ciphertext integrity check failed.'')
   \<and> decrypt_json ref_lib ref_key ref_nonce (ref_encrypt ref_key ref_nonce ''{oops'' AES_GCM_AAD)
       = Inl (CryptoIntegrityError ''Decrypted payload is invalid.'')
   \<and> decrypt_json ref_lib ref_key ref_nonce (ref_encrypt ref_key ref_nonce ''{\"x\":\"y\"}'' AES_GCM_AAD)
       = Inr (JObj [(''x'', JStr ''y'')])"
proof -
  have short_key: "length ''short'' \<noteq> 32" by simp
  have short_nonce: "length ref_key = 32 \<and> length ''short'' \<noteq> 12" by (simp add: ref_key_def)
  have a: "decrypt_json ref_lib ''short'' ref_nonce []
             = Inl (ValueError ''Encryption key must be 32 bytes.'')"
    using decrypt_json_outcomes [where k = "''short''" and L = ref_lib and n = ref_nonce and c = "[]"]
      short_key by blast
  have b: "decrypt_json ref_lib ref_key ''short'' []
             = Inl (ValueError ''AES-GCM nonce must be 12 bytes.'')"
    using decrypt_json_outcomes [where k = ref_key and L = ref_lib and n = "''short''" and c = "[]"]
      short_nonce by blast
  have c: "decrypt_json ref_lib ref_key ref_nonce []
             = Inl (CryptoIntegrityError ''Ciphertext integrity check failed.'')"
    using decrypt_json_outcomes [where k = ref_key and L = ref_lib and n = ref_nonce and c = "[]"]
      ref_decrypt_no_tag by blast
  have d: "decrypt_json ref_lib ref_key ref_nonce (ref_encrypt ref_key ref_nonce ''{oops'' AES_GCM_AAD)
             = Inl (CryptoIntegrityError ''Decrypted payload is invalid.'')"
    using decrypt_json_outcomes [where k = ref_key and L = ref_lib and n = ref_nonce
        and c = "ref_encrypt ref_key ref_nonce ''{oops'' AES_GCM_AAD"]
      ref_decrypt_not_json by blast
  have e: "decrypt_json ref_lib ref_key ref_nonce
             (ref_encrypt ref_key ref_nonce ''{\"x\":\"y\"}'' AES_GCM_AAD)
             = Inr (JObj [(''x'', JStr ''y'')])"
    using decrypt_json_outcomes [where k = ref_key and L = ref_lib and n = ref_nonce
        and c = "ref_encrypt ref_key ref_nonce ''{\"x\":\"y\"}'' AES_GCM_AAD"]
      ref_decrypt_json by blast
  from a b c d e show ?thesis by blast
qed

text \<open>
  The claim fails for a key of the wrong length, for a nonce of the wrong length and for an
  authenticated plaintext that is not UTF-8: none of the three raises
  \<open>CryptoIntegrityError\<close>.
\<close>

theorem decrypt_json_counterexample:
  "\<not> raises_CryptoIntegrityError (decrypt_json ref_lib ''short'' ref_nonce [])
   \<and> \<not> raises_CryptoIntegrityError (decrypt_json ref_lib ref_key ''short'' [])
   \<and> decrypt_json ref_lib ref_key ref_nonce (ref_encrypt ref_key ref_nonce [CHR 0xFF] AES_GCM_AAD)
       = Inl UnicodeDecodeError"
  by code_simp

text \<open>
  What \<open>json.loads\<close> raises other than \<open>JSONDecodeError\<close> leaves \<open>decrypt_json\<close> as it is,
  whatever the libraries: its \<open>except\<close> clause names \<open>json.JSONDecodeError\<close> alone.
\<close>

lemma decrypt_json_lets_through:
  assumes "length k = 32" "length n = 12"
    and "aesgcm_decrypt L k n c AES_GCM_AAD = Some plaintext"
    and "utf8_decode L plaintext = Some text"
    and "json_loads L text = Inl e" "\<not> is_JSONDecodeError e"
  shows "decrypt_json L k n c = Inl e"
  using assms by (simp add: decrypt_json_def AES_GCM_NONCE_BYTES_def)

lemma decrypt_json_lets_through_example:
  "decrypt_json ref_lib ref_key ref_nonce (ref_encrypt ref_key ref_nonce ''[[[[[[[[[['' AES_GCM_AAD)
     = Inl RecursionError
   \<and> decrypt_json ref_lib ref_key ref_nonce (ref_encrypt ref_key ref_nonce ''123456789012'' AES_GCM_AAD)
     = Inl (ValueError ''Exceeds the limit for integer string conversion'')"
  by code_simp

section \<open>Request gate\<close>

lemma get_session_falsy: "\<not> truthy tok \<Longrightarrow> get_session store tok w = (None, store, w)"
  by (simp add: get_session_def)

lemma gate_unfold:
  assumes "scope_type req = ''http''"
    and "upper (http_method req) \<in> set STATE_CHANGING_METHODS"
    and "path req \<notin> set CSRF_EXEMPT_PATHS"
  shows "fst (CSRFMiddleware req store w) =
     (case fst (get_session store (session_token_of req) w) of
        None \<Rightarrow> Reject unauthorized
      | Some session \<Rightarrow>
          if \<not> truthy (csrf_cookie_of req) \<or> \<not> truthy (csrf_header_of req)
             \<or> csrf_cookie_of req \<noteq> csrf_header_of req
             \<or> Some (csrf_token session) \<noteq> csrf_header_of req
          then Reject csrf_invalid
          else Forward)"
proof -
  have not_options: "upper (http_method req) \<noteq> ''OPTIONS''"
    using assms(2) by (auto simp: STATE_CHANGING_METHODS_def)
  show ?thesis
  proof (cases "truthy (session_token_of req)")
    case False
    then show ?thesis
      using assms not_options
      by (simp add: CSRFMiddleware_def Let_def get_session_falsy unauthorized_def)
  next
    case True
    then show ?thesis
      using assms not_options
      by (auto simp add: CSRFMiddleware_def Let_def unauthorized_def csrf_invalid_def
               split: prod.splits option.splits)
  qed
qed








section \<open>Locking\<close>

lemma gate_outcomes:
  assumes "scope_type req = ''http''"
    and "upper (http_method req) \<in> set STATE_CHANGING_METHODS"
    and "path req \<notin> set CSRF_EXEMPT_PATHS"
  shows "fst (CSRFMiddleware req store w) = Forward
         \<or> fst (CSRFMiddleware req store w) = Reject unauthorized
         \<or> fst (CSRFMiddleware req store w) = Reject csrf_invalid"
  unfolding gate_unfold [OF assms] by (simp split: option.splits)

text \<open>What a gated request that is forwarded has gone through: the session its cookie header
  names was found live and touched, at the cost of one reading of the clock.\<close>

lemma gate_forward:
  assumes "scope_type req = ''http''"
    and "upper (http_method req) \<in> set STATE_CHANGING_METHODS"
    and "path req \<notin> set CSRF_EXEMPT_PATHS"
    and "CSRFMiddleware req store w = (Forward, store', w')"
  shows "\<exists>tok session. session_token_of req = Some tok \<and> tok \<noteq> []
           \<and> map_of (sessions store) tok = Some session
           \<and> store' = store\<lparr>sessions :=
                 AList.update tok (session\<lparr>last_seen := clock w 0\<rparr>) (sessions store)\<rparr>
           \<and> w' = w\<lparr>clock := (\<lambda>i. clock w (Suc i))\<rparr>"
proof -
  have not_options: "upper (http_method req) \<noteq> ''OPTIONS''"
    using assms(2) by (auto simp: STATE_CHANGING_METHODS_def)
  show ?thesis
  proof (cases "session_token_of req")
    case None
    then show ?thesis
      using assms not_options by (simp add: CSRFMiddleware_def Let_def)
  next
    case (Some tok)
    then show ?thesis
      using assms not_options
      by (auto simp add: CSRFMiddleware_def Let_def get_session_def datetime_now_def
               split: if_splits option.splits)
  qed
qed

lemma vault_lock_result:
  "vault_lock req st =
     (Inr \<lparr>status_code = 204,
           cookie_ops = [DeleteCookie ''session_token'', DeleteCookie ''csrf_token''],
           body = NoBody\<rparr>,
      \<lparr>st_db = (st_db st)\<lparr>db_audit := db_audit (st_db st) @
          [\<lparr>audit_id = idents (st_world st) 0, audit_ts = clock (st_world st) 0,
            audit_type = ''VAULT_LOCK'', audit_outcome = ''SUCCESS'', audit_meta = None\<rparr>]\<rparr>,
       st_sessions = destroy_session (st_sessions st) (map_of (cookies req) ''session_token''),
       st_world = (st_world st)\<lparr>idents := (\<lambda>i. idents (st_world st) (Suc i)),
                                  clock := (\<lambda>i. clock (st_world st) (Suc i))\<rparr>\<rparr>)"
  by (simp add: vault_lock_def Let_def write_audit_event_def fresh_ident_def datetime_now_def
        sanitize_meta_def clear_session_cookies_def SESSION_COOKIE_NAME_def CSRF_COOKIE_NAME_def)

lemma destroy_session_gone:
  "tok \<noteq> [] \<Longrightarrow> map_of (sessions (destroy_session store (Some tok))) tok = None"
  by (simp add: destroy_session_def delete_conv')

text \<open>
  C7 (as amended).  \<open>POST /vault/lock\<close> is not an exempt path, so the request gate screens
  it.  Every such request that the gate forwards succeeds with HTTP 204; the session named by
  the session cookie that the handler reads (\<open>request.cookies\<close>) is destroyed, and this is
  the live session the gate admitted whenever the handler reads the session token the gate
  read from the cookie header; both cookies are cleared, the response deleting
  \<open>session_token\<close> and \<open>csrf_token\<close>; and one VAULT_LOCK SUCCESS audit event is committed.
  A request the gate does not forward is answered 401 UNAUTHORIZED or 403 CSRF_INVALID, and
  the handler does not run: the record store is unchanged and the session registry is as the
  gate left it.
\<close>

theorem vault_lock_behind_gate:
  assumes "scope_type req = ''http''"
    and "upper (http_method req) = ''POST''"
    and "path req = ''/vault/lock''"
  shows "(fst (CSRFMiddleware req (st_sessions st) (st_world st)) = Forward \<longrightarrow>
            fst (app_call vault_lock req st)
              = Answer \<lparr>status_code = 204,
                        cookie_ops = [DeleteCookie ''session_token'', DeleteCookie ''csrf_token''],
                        body = NoBody\<rparr>
            \<and> (\<forall>tok. map_of (cookies req) ''session_token'' = Some tok \<and> tok \<noteq> [] \<longrightarrow>
                  map_of (sessions (st_sessions (snd (app_call vault_lock req st)))) tok = None)
            \<and> (map_of (cookies req) ''session_token'' = session_token_of req \<longrightarrow>
                  (\<exists>tok session.
                      session_token_of req = Some tok
                      \<and> map_of (sessions (st_sessions st)) tok = Some session
                      \<and> map_of (sessions (st_sessions (snd (app_call vault_lock req st)))) tok
                          = None))
            \<and> st_db (snd (app_call vault_lock req st))
                  = (st_db st)\<lparr>db_audit := db_audit (st_db st) @
                      [\<lparr>audit_id = idents (st_world st) 0, audit_ts = clock (st_world st) 1,
                        audit_type = ''VAULT_LOCK'', audit_outcome = ''SUCCESS'',
                        audit_meta = None\<rparr>]\<rparr>)
       \<and> (fst (CSRFMiddleware req (st_sessions st) (st_world st)) \<noteq> Forward \<longrightarrow>
            (fst (app_call vault_lock req st)
               = Failure (build_error_response 401 ''UNAUTHORIZED'' ''Authentication required.'')
             \<or> fst (app_call vault_lock req st)
               = Failure (build_error_response 403 ''CSRF_INVALID'' ''Request not allowed.''))
            \<and> st_db (snd (app_call vault_lock req st)) = st_db st
            \<and> st_sessions (snd (app_call vault_lock req st))
                  = fst (snd (CSRFMiddleware req (st_sessions st) (st_world st))))"
proof -
  have gated: "upper (http_method req) \<in> set STATE_CHANGING_METHODS"
    "path req \<notin> set CSRF_EXEMPT_PATHS"
    using assms by (simp_all add: STATE_CHANGING_METHODS_def CSRF_EXEMPT_PATHS_def)
  obtain g store' w' where g: "CSRFMiddleware req (st_sessions st) (st_world st) = (g, store', w')"
    by (cases "CSRFMiddleware req (st_sessions st) (st_world st)") auto
  show ?thesis
  proof (cases g)
    case Forward
    obtain tok session where tok: "session_token_of req = Some tok" "tok \<noteq> []"
      and live: "map_of (sessions (st_sessions st)) tok = Some session"
      and w': "w' = (st_world st)\<lparr>clock := (\<lambda>i. clock (st_world st) (Suc i))\<rparr>"
      using gate_forward [OF assms(1) gated] g Forward by blast
    let ?st1 = "st\<lparr>st_sessions := store', st_world := w'\<rparr>"
    have call: "app_call vault_lock req st
                  = (Answer \<lparr>status_code = 204,
                        cookie_ops = [DeleteCookie ''session_token'', DeleteCookie ''csrf_token''],
                        body = NoBody\<rparr>, snd (vault_lock req ?st1))"
      using g Forward by (simp add: app_call_def vault_lock_result)
    have sess: "st_sessions (snd (vault_lock req ?st1))
                  = destroy_session store' (map_of (cookies req) ''session_token'')"
      by (simp add: vault_lock_result)
    have gone: "map_of (sessions (st_sessions (snd (vault_lock req ?st1)))) t = None"
      if "map_of (cookies req) ''session_token'' = Some t" "t \<noteq> []" for t
      using that by (simp add: sess destroy_session_gone)
    have admitted: "\<exists>tok session.
                      session_token_of req = Some tok
                      \<and> map_of (sessions (st_sessions st)) tok = Some session
                      \<and> map_of (sessions (st_sessions (snd (vault_lock req ?st1)))) tok = None"
      if "map_of (cookies req) ''session_token'' = session_token_of req"
      using that tok live gone by auto
    have audit: "st_db (snd (vault_lock req ?st1))
            = (st_db st)\<lparr>db_audit := db_audit (st_db st) @
                [\<lparr>audit_id = idents (st_world st) 0, audit_ts = clock (st_world st) 1,
                  audit_type = ''VAULT_LOCK'', audit_outcome = ''SUCCESS'', audit_meta = None\<rparr>]\<rparr>"
      by (simp add: vault_lock_result w')
    show ?thesis using g Forward call gone admitted audit by auto
  next
    case (Reject err)
    have "err = unauthorized \<or> err = csrf_invalid"
      using gate_outcomes [OF assms(1) gated, of "st_sessions st" "st_world st"] g Reject by simp
    then show ?thesis
      using g Reject by (auto simp: app_call_def unauthorized_def csrf_invalid_def)
  qed
qed

lemma lock_request_gated:
  "scope_type (post_request ''/vault/lock'' hs) = ''http''
   \<and> upper (http_method (post_request ''/vault/lock'' hs)) = ''POST''
   \<and> path (post_request ''/vault/lock'' hs) = ''/vault/lock''"
proof -
  have "upper ''POST'' = ''POST''" by code_simp
  then show ?thesis by (simp add: post_request_def)
qed

lemma lock_request_forwarded:
  "fst (CSRFMiddleware lock_request (st_sessions ref_state) (st_world ref_state)) = Forward
   \<and> map_of (cookies lock_request) ''session_token'' = session_token_of lock_request
   \<and> session_token_of lock_request = Some ''tok-1''"
  by code_simp

lemma lock_without_session_rejected:
  "fst (CSRFMiddleware (post_request ''/vault/lock'' []) (st_sessions ref_state) (st_world ref_state))
     \<noteq> Forward"
  by code_simp

theorem vault_lock_behind_gate_witness:
  "fst (app_call vault_lock lock_request ref_state)
     = Answer \<lparr>status_code = 204,
               cookie_ops = [DeleteCookie ''session_token'', DeleteCookie ''csrf_token''],
               body = NoBody\<rparr>
   \<and> map_of (sessions (st_sessions ref_state)) ''tok-1'' = Some ref_session
   \<and> map_of (sessions (st_sessions (snd (app_call vault_lock lock_request ref_state)))) ''tok-1'' = None
   \<and> db_audit (st_db (snd (app_call vault_lock lock_request ref_state)))
       = [\<lparr>audit_id = ''ident-0'', audit_ts = 7001, audit_type = ''VAULT_LOCK'',
           audit_outcome = ''SUCCESS'', audit_meta = None\<rparr>]
   \<and> st_db (snd (app_call vault_lock (post_request ''/vault/lock'' []) ref_state)) = st_db ref_state"
proof -
  note gated = lock_request_gated [THEN conjunct1] lock_request_gated [THEN conjunct2, THEN conjunct1]
    lock_request_gated [THEN conjunct2, THEN conjunct2]
  note fwd = lock_request_forwarded [THEN conjunct1]
  note same = lock_request_forwarded [THEN conjunct2, THEN conjunct1]
  note tok = lock_request_forwarded [THEN conjunct2, THEN conjunct2]
  note locked = vault_lock_behind_gate [where req = lock_request and st = ref_state,
        unfolded lock_request_def, OF gated, folded lock_request_def]
  have a: "fst (app_call vault_lock lock_request ref_state)
             = Answer \<lparr>status_code = 204,
                       cookie_ops = [DeleteCookie ''session_token'', DeleteCookie ''csrf_token''],
                       body = NoBody\<rparr>"
    using locked fwd by blast
  have b: "map_of (sessions (st_sessions (snd (app_call vault_lock lock_request ref_state)))) ''tok-1''
             = None"
    using locked fwd same tok by auto
  have live: "map_of (sessions (st_sessions ref_state)) ''tok-1'' = Some ref_session"
    by (simp add: ref_state_def ref_store_def)
  have "st_db (snd (app_call vault_lock lock_request ref_state))
          = (st_db ref_state)\<lparr>db_audit := db_audit (st_db ref_state) @
              [\<lparr>audit_id = idents (st_world ref_state) 0, audit_ts = clock (st_world ref_state) 1,
                audit_type = ''VAULT_LOCK'', audit_outcome = ''SUCCESS'', audit_meta = None\<rparr>]\<rparr>"
    using locked fwd by blast
  moreover have "idents (st_world ref_state) 0 = ''ident-0'' \<and> clock (st_world ref_state) 1 = 7001
                 \<and> db_audit (st_db ref_state) = []"
    by code_simp
  ultimately have c: "db_audit (st_db (snd (app_call vault_lock lock_request ref_state)))
       = [\<lparr>audit_id = ''ident-0'', audit_ts = 7001, audit_type = ''VAULT_LOCK'',
           audit_outcome = ''SUCCESS'', audit_meta = None\<rparr>]"
    by simp
  have d: "st_db (snd (app_call vault_lock (post_request ''/vault/lock'' []) ref_state))
             = st_db ref_state"
    using vault_lock_behind_gate [where req = "post_request ''/vault/lock'' []" and st = ref_state,
        OF gated]
      lock_without_session_rejected
    by blast
  from a live b c d show ?thesis by blast
qed

text \<open>
  The claim fails for a lock request that carries no session cookie: the gate answers 401
  and the handler never runs.
\<close>

theorem vault_lock_counterexample:
  "http_status (fst (app_call vault_lock (post_request ''/vault/lock'' []) ref_state)) = 401"
  by code_simp

text \<open>
  When the handler and the gate read different session tokens, the session the gate admitted
  outlives the lock: of two \<open>Cookie\<close> headers the gate reads the last and the handler the
  first, the request is forwarded and answered 204, and the admitted session \<open>tok-1\<close> is
  still registered.
\<close>

lemma lock_two_cookie_headers:
  "fst (CSRFMiddleware two_cookie_request (st_sessions ref_state) (st_world ref_state)) = Forward
   \<and> http_status (fst (app_call vault_lock two_cookie_request ref_state)) = 204
   \<and> map_of (sessions (st_sessions (snd (app_call vault_lock two_cookie_request ref_state)))) ''tok-1''
       = Some (ref_session\<lparr>last_seen := 7000\<rparr>)"
  by code_simp

section \<open>Unlocking and the throttle\<close>

lemma benign_keys:
  "\<not> forbidden_key ''reason''" "\<not> forbidden_key ''retry_after_seconds''"
  "\<not> forbidden_key ''failed_attempts''" "\<not> forbidden_key ''delay_seconds''"
  "\<not> forbidden_key ''count''" "\<not> forbidden_key ''hint_set''"
  "\<not> forbidden_key ''added''" "\<not> forbidden_key ''updated''"
  "\<not> forbidden_key ''skipped''" "\<not> forbidden_key ''errors''"
  by code_simp+

lemma sanitize_one:
  "\<not> forbidden_key k \<Longrightarrow> writer_scalar v \<Longrightarrow> sanitize_meta (Some [(k, v)]) = Some [(k, v)]"
  by (simp add: sanitize_meta_def sanitize_step_def)

lemma sanitize_two:
  "\<not> forbidden_key k \<Longrightarrow> writer_scalar v \<Longrightarrow> \<not> forbidden_key k' \<Longrightarrow> writer_scalar v' \<Longrightarrow> k \<noteq> k' \<Longrightarrow>
   sanitize_meta (Some [(k, v), (k', v')]) = Some [(k, v), (k', v')]"
  by (simp add: sanitize_meta_def sanitize_step_def)

lemma initialized_unfold:
  assumes "vault_initialized (db_metadata d)"
  shows "\<not> no_verifier (db_metadata d)"
    and "argon2_salt (the (db_metadata d)) \<noteq> None"
    and "argon2_memory_cost (the (db_metadata d)) \<noteq> None"
    and "argon2_time_cost (the (db_metadata d)) \<noteq> None"
    and "argon2_parallelism (the (db_metadata d)) \<noteq> None"
  using assms by (auto simp: vault_initialized_def no_verifier_def split: option.splits)

lemma get_or_create_throttle_eq:
  "get_or_create_unlock_throttle d = (throttle_row d, d\<lparr>db_throttle := Some (throttle_row d)\<rparr>)"
  by (cases "db_throttle d") (simp_all add: get_or_create_unlock_throttle_def throttle_row_def Let_def)

lemma throttle_row_cases:
  "throttle_row d = (case db_throttle d of None \<Rightarrow> \<lparr>failed_attempts = 0, next_allowed_at = None\<rparr> | Some t \<Rightarrow> t)"
  by (cases "db_throttle d") (simp_all add: get_or_create_unlock_throttle_def throttle_row_def Let_def)

text \<open>The comparison of line 133 raises on a persisted \<open>next_allowed_at\<close>, which is naive.\<close>

lemma throttled_naive:
  "next_allowed_at throttle = Some t \<Longrightarrow> utcoffset t = None \<Longrightarrow>
   throttled throttle (utc_datetime now) = Inl TypeError"
  by (simp add: throttled_def datetime_less_def utc_datetime_def)

lemma unlock_raising_branch:
  assumes init: "vault_initialized (db_metadata (st_db st))"
    and thr: "throttled (throttle_row (st_db st)) (utc_datetime (clock (st_world st) 0)) = Inl e"
  shows "vault_unlock L cfg pw st =
     (Inl e, st\<lparr>st_world := (st_world st)\<lparr>clock := (\<lambda>i. clock (st_world st) (Suc i))\<rparr>\<rparr>)"
  using initialized_unfold [OF init] thr
  by (auto simp add: vault_unlock_def Let_def get_or_create_throttle_eq datetime_now_def)

lemma unlock_failed_branch:
  assumes init: "vault_initialized (db_metadata (st_db st))"
    and thr: "throttled (throttle_row (st_db st)) (utc_datetime (clock (st_world st) 0)) = Inr False"
    and bad: "verify_password L pw (the (pw_verifier (the (db_metadata (st_db st))))) = Inr False"
  shows "vault_unlock L cfg pw st =
     (Inl (AppError ''UNAUTHORIZED'' ''Unlock failed.'' 401),
      st\<lparr>st_db := (st_db st)
               \<lparr>db_throttle := Some \<lparr>failed_attempts = failed_attempts (throttle_row (st_db st)) + 1,
                   next_allowed_at = Some \<lparr>wall = clock (st_world st) 0 + timedelta_seconds
                     (int (delay_seconds (failed_attempts (throttle_row (st_db st)) + 1))),
                     utcoffset = None\<rparr>\<rparr>,
                db_audit := db_audit (st_db st) @
                  [\<lparr>audit_id = idents (st_world st) 0, audit_ts = clock (st_world st) 1,
                    audit_type = ''VAULT_UNLOCK'', audit_outcome = ''FAILURE'',
                    audit_meta = Some [(''failed_attempts'',
                        MInt (int (failed_attempts (throttle_row (st_db st)) + 1))),
                       (''delay_seconds'',
                        MInt (int (delay_seconds (failed_attempts (throttle_row (st_db st)) + 1))))]\<rparr>]\<rparr>,
         st_world := (st_world st)\<lparr>clock := (\<lambda>i. clock (st_world st) (Suc (Suc i))),
                                     idents := (\<lambda>i. idents (st_world st) (Suc i))\<rparr>\<rparr>)"
  using initialized_unfold [OF init] thr bad
  by (simp add: vault_unlock_def Let_def get_or_create_throttle_eq write_audit_event_def
        fresh_ident_def datetime_now_def sanitize_two benign_keys commit_throttle_def
        persisted_def datetime_plus_def utc_datetime_def)

lemma throttle_overwrite:
  "(t :: UnlockThrottleRecord)\<lparr>failed_attempts := a, next_allowed_at := b\<rparr>
     = \<lparr>failed_attempts = a, next_allowed_at = b\<rparr>"
  by (cases t) simp

lemma unlock_verified_branch:
  assumes init: "vault_initialized (db_metadata (st_db st))"
    and thr: "throttled (throttle_row (st_db st)) (utc_datetime (clock (st_world st) 0)) = Inr False"
    and good: "verify_password L pw (the (pw_verifier (the (db_metadata (st_db st))))) = Inr True"
    and key: "unlock_session_key L pw (the (db_metadata (st_db st))) = Inr key" "length key = 32"
  shows "fst (vault_unlock L cfg pw st) =
     Inr \<lparr>status_code = 200,
          cookie_ops = set_session_cookies
            \<lparr>token = idents (st_world st) 0, csrf_token = idents (st_world st) 1, enc_key = key,
             created_at = clock (st_world st) 1, last_seen = clock (st_world st) 1\<rparr>
            (app_session_idle_minutes cfg * 60),
          body = GenericOkResponse True\<rparr>"
    and "st_db (snd (vault_unlock L cfg pw st)) =
      (st_db st)
               \<lparr>db_throttle := Some \<lparr>failed_attempts = 0, next_allowed_at = None\<rparr>,
                db_audit := db_audit (st_db st) @
                  [\<lparr>audit_id = idents (st_world st) 2, audit_ts = clock (st_world st) 2,
                    audit_type = ''VAULT_UNLOCK'', audit_outcome = ''SUCCESS'',
                    audit_meta = None\<rparr>]\<rparr>"
    and "map_of (sessions (st_sessions (snd (vault_unlock L cfg pw st)))) (idents (st_world st) 0)
       = Some \<lparr>token = idents (st_world st) 0, csrf_token = idents (st_world st) 1, enc_key = key,
             created_at = clock (st_world st) 1, last_seen = clock (st_world st) 1\<rparr>"
  using initialized_unfold [OF init] thr good key
  by (auto simp add: vault_unlock_def Let_def get_or_create_throttle_eq write_audit_event_def
        fresh_ident_def datetime_now_def sanitize_meta_def create_session_def update_conv'
        throttle_overwrite numeral_2_eq_2 commit_throttle_def)

lemma unlock_session_key_derived:
  assumes "12 \<le> length pw" "length pw \<le> 128"
    and "16 \<le> length (the (argon2_salt md))"
    and "kdf_delivers L pw md"
  shows "\<exists>key. unlock_session_key L pw md = Inr key \<and> length key = 32"
  using assms
  by (auto simp: kdf_delivers_def unlock_session_key_def derive_master_key_raw_def
        derive_enc_key_def derive_key_def Argon2Params_of_def Let_def split: option.splits)

text \<open>
  C2, and the code where it departs from it.  On an initialized vault whose throttle row has
  no \<open>next_allowed_at\<close> (the row as created, or as the last successful unlock left it), or
  one that compares as not later than now, an unlock attempt does what the claim says: if the
  master password does not verify, \<open>failed_attempts\<close> is incremented by one,
  \<open>next_allowed_at\<close> is set to now plus \<open>min(300, 2^min(failed_attempts, 8))\<close> seconds
  (with the incremented count; the store keeps it as a wall clock without timezone) and the
  request fails UNAUTHORIZED; if the password verifies (within the request schema's 12 to 128
  characters, with the stored salt of at least 16 bytes and the libraries returning the 32
  bytes asked for), the row is reset to \<open>failed_attempts = 0\<close> and \<open>next_allowed_at = null\<close>
  and the request succeeds with 200.

  On a row whose \<open>next_allowed_at\<close> was persisted by an earlier failure and now lies in the
  past, so that the attempt is not throttled, the code does neither: the value read from the
  store is naive, comparing the aware \<open>now\<close> with it raises \<open>TypeError\<close>, whatever the
  password, and nothing is committed, so the row keeps its count and its
  \<open>next_allowed_at\<close>.
\<close>

theorem unlock_not_throttled:
  assumes "vault_initialized (db_metadata (st_db st))"
  shows "(throttled (throttle_row (st_db st)) (utc_datetime (clock (st_world st) 0)) = Inr False \<longrightarrow>
            (verify_password L pw (the (pw_verifier (the (db_metadata (st_db st))))) = Inr False \<longrightarrow>
               fst (vault_unlock L cfg pw st) = Inl (AppError ''UNAUTHORIZED'' ''Unlock failed.'' 401)
               \<and> db_throttle (st_db (snd (vault_unlock L cfg pw st)))
                   = Some \<lparr>failed_attempts = failed_attempts (throttle_row (st_db st)) + 1,
                           next_allowed_at =
                             Some \<lparr>wall = clock (st_world st) 0 + timedelta_seconds
                                     (int (min 300
                                        (2 ^ min (failed_attempts (throttle_row (st_db st)) + 1) 8))),
                                   utcoffset = None\<rparr>\<rparr>)
            \<and> (verify_password L pw (the (pw_verifier (the (db_metadata (st_db st))))) = Inr True
               \<and> 12 \<le> length pw \<and> length pw \<le> 128
               \<and> 16 \<le> length (the (argon2_salt (the (db_metadata (st_db st)))))
               \<and> kdf_delivers L pw (the (db_metadata (st_db st))) \<longrightarrow>
                 (\<exists>resp. fst (vault_unlock L cfg pw st) = Inr resp \<and> status_code resp = 200)
                 \<and> db_throttle (st_db (snd (vault_unlock L cfg pw st)))
                     = Some \<lparr>failed_attempts = 0, next_allowed_at = None\<rparr>))
       \<and> (\<forall>throttle t.
             db_throttle (st_db st) = Some throttle \<and> next_allowed_at throttle = Some t
             \<and> utcoffset t = None \<and> wall t \<le> clock (st_world st) 0 \<longrightarrow>
               fst (vault_unlock L cfg pw st) = Inl TypeError
               \<and> st_db (snd (vault_unlock L cfg pw st)) = st_db st)"
proof -
  have failed: "fst (vault_unlock L cfg pw st) = Inl (AppError ''UNAUTHORIZED'' ''Unlock failed.'' 401)
            \<and> db_throttle (st_db (snd (vault_unlock L cfg pw st)))
                = Some \<lparr>failed_attempts = failed_attempts (throttle_row (st_db st)) + 1,
                        next_allowed_at =
                          Some \<lparr>wall = clock (st_world st) 0 + timedelta_seconds
                                  (int (min 300
                                     (2 ^ min (failed_attempts (throttle_row (st_db st)) + 1) 8))),
                                utcoffset = None\<rparr>\<rparr>"
    if thr: "throttled (throttle_row (st_db st)) (utc_datetime (clock (st_world st) 0)) = Inr False"
      and bad: "verify_password L pw (the (pw_verifier (the (db_metadata (st_db st))))) = Inr False"
    using unlock_failed_branch [OF assms thr bad, of cfg] by (simp add: delay_seconds_def)
  have verified: "(\<exists>resp. fst (vault_unlock L cfg pw st) = Inr resp \<and> status_code resp = 200)
            \<and> db_throttle (st_db (snd (vault_unlock L cfg pw st)))
                = Some \<lparr>failed_attempts = 0, next_allowed_at = None\<rparr>"
    if thr: "throttled (throttle_row (st_db st)) (utc_datetime (clock (st_world st) 0)) = Inr False"
      and good: "verify_password L pw (the (pw_verifier (the (db_metadata (st_db st))))) = Inr True"
      and len: "12 \<le> length pw" "length pw \<le> 128"
      and salt_len: "16 \<le> length (the (argon2_salt (the (db_metadata (st_db st)))))"
      and kdf: "kdf_delivers L pw (the (db_metadata (st_db st)))"
  proof -
    obtain key where key: "unlock_session_key L pw (the (db_metadata (st_db st))) = Inr key"
        "length key = 32"
      using unlock_session_key_derived [OF len salt_len kdf] by blast
    show ?thesis
      using unlock_verified_branch(1,2) [OF assms thr good key, of cfg] by simp
  qed
  have raising: "fst (vault_unlock L cfg pw st) = Inl TypeError
               \<and> st_db (snd (vault_unlock L cfg pw st)) = st_db st"
    if row: "db_throttle (st_db st) = Some throttle" and at: "next_allowed_at throttle = Some t"
      and naive: "utcoffset t = None" for throttle t
  proof -
    have "throttle_row (st_db st) = throttle"
      using row by (simp add: throttle_row_cases)
    then have "throttled (throttle_row (st_db st)) (utc_datetime (clock (st_world st) 0))
                 = Inl TypeError"
      using throttled_naive [OF at naive] by simp
    from unlock_raising_branch [OF assms this, of L cfg pw] show ?thesis by simp
  qed
  from failed verified raising show ?thesis by blast
qed

lemma st_setup_ready:
  "vault_initialized (db_metadata (st_db st_setup))
   \<and> throttled (throttle_row (st_db st_setup)) (utc_datetime (clock (st_world st_setup) 0)) = Inr False"
  by code_simp

lemma st_setup_wrong_password:
  "verify_password ref_lib ''wrong-password-1''
     (the (pw_verifier (the (db_metadata (st_db st_setup))))) = Inr False"
  by code_simp

lemma st_setup_bumped:
  "\<lparr>failed_attempts = failed_attempts (throttle_row (st_db st_setup)) + 1,
    next_allowed_at = Some \<lparr>wall = clock (st_world st_setup) 0 + timedelta_seconds
        (int (min 300 (2 ^ min (failed_attempts (throttle_row (st_db st_setup)) + 1) 8))),
      utcoffset = None\<rparr>\<rparr>
   = \<lparr>failed_attempts = 1, next_allowed_at = Some \<lparr>wall = 2007001, utcoffset = None\<rparr>\<rparr>"
  by code_simp

lemma st_setup_right_password:
  "verify_password ref_lib ''CorrectHorseBatteryStaple!''
     (the (pw_verifier (the (db_metadata (st_db st_setup))))) = Inr True
   \<and> 12 \<le> length ''CorrectHorseBatteryStaple!'' \<and> length ''CorrectHorseBatteryStaple!'' \<le> 128
   \<and> 16 \<le> length (the (argon2_salt (the (db_metadata (st_db st_setup)))))
   \<and> kdf_delivers ref_lib ''CorrectHorseBatteryStaple!'' (the (db_metadata (st_db st_setup)))"
  by code_simp

lemma st_later_row:
  "vault_initialized (db_metadata (st_db st_later))
   \<and> db_throttle (st_db st_later)
       = Some \<lparr>failed_attempts = 1, next_allowed_at = Some \<lparr>wall = 2007001, utcoffset = None\<rparr>\<rparr>
   \<and> wall \<lparr>wall = 2007001, utcoffset = None\<rparr> \<le> clock (st_world st_later) 0"
  by code_simp

theorem unlock_not_throttled_witness:
  "fst (vault_unlock ref_lib ref_config ''wrong-password-1'' st_setup)
     = Inl (AppError ''UNAUTHORIZED'' ''Unlock failed.'' 401)
   \<and> db_throttle (st_db (snd (vault_unlock ref_lib ref_config ''wrong-password-1'' st_setup)))
       = Some \<lparr>failed_attempts = 1, next_allowed_at = Some \<lparr>wall = 2007001, utcoffset = None\<rparr>\<rparr>
   \<and> db_throttle (st_db (snd (vault_unlock ref_lib ref_config ''CorrectHorseBatteryStaple!'' st_setup)))
       = Some \<lparr>failed_attempts = 0, next_allowed_at = None\<rparr>
   \<and> fst (vault_unlock ref_lib ref_config ''wrong-password-2'' st_later) = Inl TypeError
   \<and> fst (vault_unlock ref_lib ref_config ''CorrectHorseBatteryStaple!'' st_later) = Inl TypeError
   \<and> db_throttle (st_db (snd (vault_unlock ref_lib ref_config ''CorrectHorseBatteryStaple!'' st_later)))
       = Some \<lparr>failed_attempts = 1, next_allowed_at = Some \<lparr>wall = 2007001, utcoffset = None\<rparr>\<rparr>"
proof -
  note ready = st_setup_ready [THEN conjunct1]
  note open_row = st_setup_ready [THEN conjunct2]
  note later = st_later_row [THEN conjunct1]
  note row = st_later_row [THEN conjunct2, THEN conjunct1]
  note past = st_later_row [THEN conjunct2, THEN conjunct2]
  have a: "fst (vault_unlock ref_lib ref_config ''wrong-password-1'' st_setup)
             = Inl (AppError ''UNAUTHORIZED'' ''Unlock failed.'' 401)
           \<and> db_throttle (st_db (snd (vault_unlock ref_lib ref_config ''wrong-password-1'' st_setup)))
               = Some \<lparr>failed_attempts = 1,
                       next_allowed_at = Some \<lparr>wall = 2007001, utcoffset = None\<rparr>\<rparr>"
    using unlock_not_throttled [OF ready, where L = ref_lib and pw = "''wrong-password-1''"
        and cfg = ref_config]
      open_row st_setup_wrong_password
    unfolding st_setup_bumped by blast
  have b: "db_throttle (st_db (snd (vault_unlock ref_lib ref_config ''CorrectHorseBatteryStaple!'' st_setup)))
             = Some \<lparr>failed_attempts = 0, next_allowed_at = None\<rparr>"
    using unlock_not_throttled [OF ready, where L = ref_lib and pw = "''CorrectHorseBatteryStaple!''"
        and cfg = ref_config]
      open_row st_setup_right_password
    by blast
  have naive: "next_allowed_at \<lparr>failed_attempts = 1,
                   next_allowed_at = Some \<lparr>wall = 2007001, utcoffset = None\<rparr>\<rparr>
                 = Some \<lparr>wall = 2007001, utcoffset = None\<rparr>
               \<and> utcoffset \<lparr>wall = 2007001, utcoffset = None\<rparr> = None"
    by simp
  have c: "fst (vault_unlock ref_lib ref_config ''wrong-password-2'' st_later) = Inl TypeError"
    using unlock_not_throttled [OF later, where L = ref_lib and pw = "''wrong-password-2''"
        and cfg = ref_config]
      row past naive
    by blast
  have d: "fst (vault_unlock ref_lib ref_config ''CorrectHorseBatteryStaple!'' st_later) = Inl TypeError
           \<and> st_db (snd (vault_unlock ref_lib ref_config ''CorrectHorseBatteryStaple!'' st_later))
               = st_db st_later"
    using unlock_not_throttled [OF later, where L = ref_lib and pw = "''CorrectHorseBatteryStaple!''"
        and cfg = ref_config]
      row past naive
    by blast
  from a b c d row show ?thesis by simp
qed

text \<open>
  C4, and the code where it departs from it.  An unlock attempt on an initialized vault made
  while now is strictly before the persisted throttle row's \<open>next_allowed_at\<close> (the wall
  clock the store kept of it, read as UTC) is not rejected with RATE_LIMITED: the value read
  from the store is naive, and comparing the aware \<open>now\<close> with it raises \<open>TypeError\<close>,
  which the application answers with 500 INTERNAL_ERROR.  Of the claim there holds that the
  outcome depends neither on the libraries (the password verifier is not consulted) nor on
  the attempted password, and that \<open>failed_attempts\<close> and \<open>next_allowed_at\<close> are
  unchanged; but the record store is unchanged altogether, so no VAULT_UNLOCK FAILURE audit
  event is committed.
\<close>

theorem unlock_throttled_raises:
  assumes "vault_initialized (db_metadata (st_db st))"
    and "db_throttle (st_db st) = Some throttle"
    and "next_allowed_at throttle = Some t"
    and "utcoffset t = None"
    and "clock (st_world st) 0 < wall t"
  shows "fst (vault_unlock L cfg pw st) = Inl TypeError
       \<and> exception_response TypeError
           = \<lparr>err_status = 500, err_code = ''INTERNAL_ERROR'', err_message = ''Unexpected error.''\<rparr>
       \<and> (\<forall>L' pw'. vault_unlock L' cfg pw' st = vault_unlock L cfg pw st)
       \<and> db_throttle (st_db (snd (vault_unlock L cfg pw st))) = Some throttle
       \<and> st_db (snd (vault_unlock L cfg pw st)) = st_db st"
proof -
  have "throttle_row (st_db st) = throttle"
    using assms(2) by (simp add: throttle_row_cases)
  then have thr: "throttled (throttle_row (st_db st)) (utc_datetime (clock (st_world st) 0))
                    = Inl TypeError"
    using throttled_naive [OF assms(3,4)] by simp
  note branch = unlock_raising_branch [OF assms(1) thr, of _ cfg]
  have indep: "vault_unlock L' cfg pw' st = vault_unlock L cfg pw st" for L' pw'
    by (simp add: branch)
  show ?thesis
    using indep assms(2) by (simp add: branch build_error_response_def)
qed

lemma st_failed_throttled:
  "vault_initialized (db_metadata (st_db st_failed))
   \<and> db_throttle (st_db st_failed)
       = Some \<lparr>failed_attempts = 1, next_allowed_at = Some \<lparr>wall = 2007001, utcoffset = None\<rparr>\<rparr>
   \<and> clock (st_world st_failed) 0 < wall \<lparr>wall = 2007001, utcoffset = None\<rparr>"
  by code_simp

theorem unlock_throttled_raises_witness:
  "fst (vault_unlock ref_lib ref_config ''wrong-password-2'' st_failed) = Inl TypeError
   \<and> http_status (Failure (exception_response TypeError)) = 500
   \<and> db_audit (st_db (snd (vault_unlock ref_lib ref_config ''wrong-password-2'' st_failed)))
       = db_audit (st_db st_failed)
   \<and> db_throttle (st_db (snd (vault_unlock ref_lib ref_config ''wrong-password-2'' st_failed)))
       = Some \<lparr>failed_attempts = 1, next_allowed_at = Some \<lparr>wall = 2007001, utcoffset = None\<rparr>\<rparr>"
proof -
  have row: "next_allowed_at \<lparr>failed_attempts = 1,
                 next_allowed_at = Some \<lparr>wall = 2007001, utcoffset = None\<rparr>\<rparr>
               = Some \<lparr>wall = 2007001, utcoffset = None\<rparr>"
    by simp
  have naive: "utcoffset \<lparr>wall = 2007001, utcoffset = None\<rparr> = None"
    by simp
  note raises = unlock_throttled_raises [OF st_failed_throttled [THEN conjunct1]
        st_failed_throttled [THEN conjunct2, THEN conjunct1] row naive
        st_failed_throttled [THEN conjunct2, THEN conjunct2],
        where L = ref_lib and cfg = ref_config and pw = "''wrong-password-2''"]
  have "st_db (snd (vault_unlock ref_lib ref_config ''wrong-password-2'' st_failed)) = st_db st_failed"
    using raises by blast
  then have audit: "db_audit (st_db (snd (vault_unlock ref_lib ref_config ''wrong-password-2'' st_failed)))
       = db_audit (st_db st_failed)"
    by simp
  have status: "http_status (Failure (exception_response TypeError)) = 500"
    using raises by simp
  from raises audit status show ?thesis by blast
qed

lemma throttle_row_ok: "throttle_ok d \<Longrightarrow> throttle_invariant (throttle_row d)"
  by (simp add: throttle_ok_def throttle_row_cases throttle_invariant_def split: option.splits)

lemma setup_keeps_throttle_ok:
  assumes "throttle_ok (st_db st)"
  shows "throttle_ok (st_db (snd (vault_setup L pw hint_text st)))"
  using assms
  by (auto simp add: vault_setup_def Let_def write_audit_event_def fresh_ident_def datetime_now_def
        get_or_create_settings_def get_or_create_unlock_throttle_def generate_argon2_salt_def
        os_urandom_def throttle_ok_def throttle_invariant_def
      split: prod.splits option.splits sum.splits if_splits)

lemma unlock_keeps_throttle_ok:
  assumes "throttle_ok (st_db st)"
  shows "throttle_ok (st_db (snd (vault_unlock L cfg pw st)))"
proof -
  have row: "throttle_invariant (throttle_row (st_db st))"
    using assms by (rule throttle_row_ok)
  show ?thesis
    using assms row
    by (auto simp add: vault_unlock_def Let_def write_audit_event_def fresh_ident_def datetime_now_def
          get_or_create_throttle_eq create_session_def throttle_ok_def throttle_invariant_def
          commit_throttle_def
        split: prod.splits option.splits sum.splits if_splits)
qed

text \<open>
  C9.  In the persisted unlock-throttle row, \<open>failed_attempts = 0\<close> holds if and only if
  \<open>next_allowed_at\<close> is null: the freshly created row has the invariant, and from a store
  whose row has it, creating the row, setup and every outcome of an unlock attempt (the
  failed-unlock bump and the successful-unlock reset among them) lead to a store whose row
  has it.
\<close>

theorem throttle_invariant_preserved:
  "throttle_invariant \<lparr>failed_attempts = 0, next_allowed_at = None\<rparr>
   \<and> (throttle_ok (st_db st) \<longrightarrow>
        throttle_invariant (fst (get_or_create_unlock_throttle (st_db st)))
        \<and> throttle_ok (snd (get_or_create_unlock_throttle (st_db st)))
        \<and> throttle_ok (st_db (snd (vault_setup L pw hint_text st)))
        \<and> throttle_ok (st_db (snd (vault_unlock L cfg pw st))))"
proof -
  have fresh: "throttle_invariant \<lparr>failed_attempts = 0, next_allowed_at = None\<rparr>"
    by (simp add: throttle_invariant_def)
  have created: "throttle_invariant (fst (get_or_create_unlock_throttle (st_db st)))
        \<and> throttle_ok (snd (get_or_create_unlock_throttle (st_db st)))" if "throttle_ok (st_db st)"
    using that throttle_row_ok [OF that]
    by (simp add: get_or_create_throttle_eq throttle_ok_def)
  from fresh created setup_keeps_throttle_ok unlock_keeps_throttle_ok show ?thesis by blast
qed

lemma st_setup_throttle_ok: "throttle_ok (st_db st_setup)"
  by code_simp

theorem throttle_invariant_preserved_witness:
  "throttle_ok (st_db st_setup)
   \<and> throttle_ok (st_db (snd (vault_unlock ref_lib ref_config ''wrong-password-1'' st_setup)))
   \<and> throttle_ok (st_db (snd (vault_unlock ref_lib ref_config ''CorrectHorseBatteryStaple!'' st_setup)))"
  using throttle_invariant_preserved [where st = st_setup and L = ref_lib and cfg = ref_config
      and pw = "''wrong-password-1''"]
    throttle_invariant_preserved [where st = st_setup and L = ref_lib and cfg = ref_config
      and pw = "''CorrectHorseBatteryStaple!''"]
    st_setup_throttle_ok
  by blast

section \<open>Listing entries\<close>

lemma decrypt_rows_all:
  "list_all2 (\<lambda>row entry. decrypt_entry L row key = Inr entry) rows es \<Longrightarrow>
   decrypt_rows L key rows = Inr es"
  by (induction rows es rule: list_all2_induct) simp_all

lemma decrypt_rows_Inr:
  "decrypt_rows L key rows = Inr es \<Longrightarrow>
   list_all2 (\<lambda>row entry. decrypt_entry L row key = Inr entry) rows es"
  by (induction rows arbitrary: es) (auto split: sum.splits)

lemma sort_Inr:
  "sort_updatedAt_reverse es = Inr sorted_entries \<Longrightarrow>
   sorted_entries = rev (sort_key (\<lambda>e. order_key (updatedAt e)) (rev es))"
  by (auto simp: sort_updatedAt_reverse_def split: if_splits)

lemma sort_uniform:
  assumes "(\<forall>e \<in> set es. utcoffset (updatedAt e) = None)
           \<or> (\<forall>e \<in> set es. utcoffset (updatedAt e) \<noteq> None)"
  shows "sort_updatedAt_reverse es = Inr (rev (sort_key (\<lambda>e. order_key (updatedAt e)) (rev es)))"
  using assms by (auto simp: sort_updatedAt_reverse_def list_all_iff)

lemma sort_mixed:
  assumes "\<exists>e \<in> set es. utcoffset (updatedAt e) = None"
    and "\<exists>e \<in> set es. utcoffset (updatedAt e) \<noteq> None"
  shows "sort_updatedAt_reverse es = Inl TypeError"
  using assms by (auto simp: sort_updatedAt_reverse_def list_all_iff)

lemma sorted_reverse:
  "sorted_wrt (\<lambda>a b. order_key (s_updatedAt a) \<ge> order_key (s_updatedAt b))
     (map to_summary (rev (sort_key (\<lambda>e. order_key (updatedAt e)) (rev es))))"
proof -
  have "sorted (map (\<lambda>e. order_key (updatedAt e)) (sort_key (\<lambda>e. order_key (updatedAt e)) (rev es)))"
    by (rule sorted_sort_key)
  then have "sorted_wrt (\<lambda>a b. order_key (updatedAt a) \<le> order_key (updatedAt b))
               (sort_key (\<lambda>e. order_key (updatedAt e)) (rev es))"
    by (simp add: sorted_wrt_map)
  then have "sorted_wrt (\<lambda>a b. order_key (updatedAt a) \<ge> order_key (updatedAt b))
               (rev (sort_key (\<lambda>e. order_key (updatedAt e)) (rev es)))"
    by (simp add: sorted_wrt_rev)
  then show ?thesis
    by (simp add: sorted_wrt_map to_summary_def)
qed

lemma to_summary_fields:
  "to_summary = (\<lambda>e. \<lparr>s_id = entry_id e, s_title = title e, s_username = username e,
                       s_url = url e, s_favorite = favorite e, s_updatedAt = updatedAt e\<rparr>)"
  by (rule ext) (simp add: to_summary_def)

lemma list_entries_unfold:
  assumes "fst (require_unlocked_session req (st_sessions st) (st_world st)) = Inr session"
  shows "fst (list_entries L req st) =
     (case decrypt_rows L (enc_key session) (db_entries (st_db st)) of
        Inl e \<Rightarrow> Inl e
      | Inr es \<Rightarrow>
          (case sort_updatedAt_reverse es of
             Inl e \<Rightarrow> Inl e
           | Inr sorted_entries \<Rightarrow>
               Inr \<lparr>status_code = 200, cookie_ops = [],
                    body = EntrySummaryList (map to_summary sorted_entries)\<rparr>))"
  using assms
  by (auto simp add: list_entries_def Let_def write_audit_event_def fresh_ident_def datetime_now_def
      split: prod.splits sum.splits)

text \<open>
  C8, and the code where it departs from it.  For an unlocked session, every response of
  \<open>GET /entries\<close> that lists anything is 200 and comes from decrypting every stored record:
  its summaries are, entry for entry, the \<open>id\<close>, \<open>title\<close>, \<open>username\<close>, \<open>url\<close>,
  \<open>favorite\<close> and \<open>updatedAt\<close> of the decrypted entries, one per record, in descending
  order of \<open>updatedAt\<close>, and each summary carries exactly these six fields, so neither
  \<open>password\<close> nor \<open>notes\<close>.  There is such a response whenever every record decrypts to
  an entry and the entries' \<open>updatedAt\<close> are all timezone-aware (as the data model has
  them) or all naive.  When a record fails, the request fails with that record's error.

  When every record decrypts and the entries mix naive and aware \<open>updatedAt\<close> values, as
  they do once a backup with timestamps without timezone has been imported beside entries
  the API created, the code lists nothing: the sort compares the values as they are, which
  raises \<open>TypeError\<close>.
\<close>

theorem list_entries_summaries:
  assumes "fst (require_unlocked_session req (st_sessions st) (st_world st)) = Inr session"
  shows "(\<forall>resp. fst (list_entries L req st) = Inr resp \<longrightarrow>
            (\<exists>es summaries.
               list_all2 (\<lambda>row entry. decrypt_entry L row (enc_key session) = Inr entry)
                 (db_entries (st_db st)) es
               \<and> resp = \<lparr>status_code = 200, cookie_ops = [], body = EntrySummaryList summaries\<rparr>
               \<and> mset summaries
                   = mset (map (\<lambda>e. \<lparr>s_id = entry_id e, s_title = title e,
                                      s_username = username e, s_url = url e,
                                      s_favorite = favorite e, s_updatedAt = updatedAt e\<rparr>) es)
               \<and> length summaries = length (db_entries (st_db st))
               \<and> sorted_wrt (\<lambda>a b. order_key (s_updatedAt a) \<ge> order_key (s_updatedAt b)) summaries
               \<and> (\<forall>s \<in> set summaries.
                     map fst (EntrySummary_dump L s)
                       = [''id'', ''title'', ''username'', ''url'', ''favorite'', ''updatedAt'']
                     \<and> map_of (EntrySummary_dump L s) ''password'' = None
                     \<and> map_of (EntrySummary_dump L s) ''notes'' = None)))
       \<and> (\<forall>es. list_all2 (\<lambda>row entry. decrypt_entry L row (enc_key session) = Inr entry)
                 (db_entries (st_db st)) es
               \<and> ((\<forall>e \<in> set es. utcoffset (updatedAt e) = None)
                    \<or> (\<forall>e \<in> set es. utcoffset (updatedAt e) \<noteq> None)) \<longrightarrow>
            (\<exists>resp. fst (list_entries L req st) = Inr resp))
       \<and> (\<forall>es. list_all2 (\<lambda>row entry. decrypt_entry L row (enc_key session) = Inr entry)
                 (db_entries (st_db st)) es
               \<and> (\<exists>e \<in> set es. utcoffset (updatedAt e) = None)
               \<and> (\<exists>e \<in> set es. utcoffset (updatedAt e) \<noteq> None) \<longrightarrow>
            fst (list_entries L req st) = Inl TypeError)
       \<and> (\<forall>e. decrypt_rows L (enc_key session) (db_entries (st_db st)) = Inl e \<longrightarrow>
            fst (list_entries L req st) = Inl e)"
proof -
  note unfolded = list_entries_unfold [OF assms, of L]
  have listed: "\<exists>es summaries.
               list_all2 (\<lambda>row entry. decrypt_entry L row (enc_key session) = Inr entry)
                 (db_entries (st_db st)) es
               \<and> resp = \<lparr>status_code = 200, cookie_ops = [], body = EntrySummaryList summaries\<rparr>
               \<and> mset summaries
                   = mset (map (\<lambda>e. \<lparr>s_id = entry_id e, s_title = title e,
                                      s_username = username e, s_url = url e,
                                      s_favorite = favorite e, s_updatedAt = updatedAt e\<rparr>) es)
               \<and> length summaries = length (db_entries (st_db st))
               \<and> sorted_wrt (\<lambda>a b. order_key (s_updatedAt a) \<ge> order_key (s_updatedAt b)) summaries
               \<and> (\<forall>s \<in> set summaries.
                     map fst (EntrySummary_dump L s)
                       = [''id'', ''title'', ''username'', ''url'', ''favorite'', ''updatedAt'']
                     \<and> map_of (EntrySummary_dump L s) ''password'' = None
                     \<and> map_of (EntrySummary_dump L s) ''notes'' = None)"
    if resp: "fst (list_entries L req st) = Inr resp" for resp
  proof -
    obtain es where es: "decrypt_rows L (enc_key session) (db_entries (st_db st)) = Inr es"
      using resp unfolded
      by (cases "decrypt_rows L (enc_key session) (db_entries (st_db st))") auto
    obtain sorted_entries where srt: "sort_updatedAt_reverse es = Inr sorted_entries"
      using resp unfolded es by (cases "sort_updatedAt_reverse es") auto
    let ?sorted = "rev (sort_key (\<lambda>e. order_key (updatedAt e)) (rev es))"
    let ?summaries = "map to_summary ?sorted"
    have sorted_eq: "sorted_entries = ?sorted"
      using srt by (rule sort_Inr)
    have all: "list_all2 (\<lambda>row entry. decrypt_entry L row (enc_key session) = Inr entry)
                 (db_entries (st_db st)) es"
      using es by (rule decrypt_rows_Inr)
    have r: "resp = \<lparr>status_code = 200, cookie_ops = [], body = EntrySummaryList ?summaries\<rparr>"
      using resp unfolded es srt sorted_eq by simp
    have len: "length ?summaries = length (db_entries (st_db st))"
      using list_all2_lengthD [OF all] by simp
    have "mset ?summaries = mset (map to_summary es)"
      by simp
    then have ms: "mset ?summaries
                   = mset (map (\<lambda>e. \<lparr>s_id = entry_id e, s_title = title e,
                                      s_username = username e, s_url = url e,
                                      s_favorite = favorite e, s_updatedAt = updatedAt e\<rparr>) es)"
      by (simp only: to_summary_fields)
    have fields: "map fst (EntrySummary_dump L s)
                       = [''id'', ''title'', ''username'', ''url'', ''favorite'', ''updatedAt'']
                     \<and> map_of (EntrySummary_dump L s) ''password'' = None
                     \<and> map_of (EntrySummary_dump L s) ''notes'' = None" for s
      by (simp add: EntrySummary_dump_def)
    from all r len ms sorted_reverse [of es] fields show ?thesis by blast
  qed
  have ok: "\<exists>resp. fst (list_entries L req st) = Inr resp"
    if all: "list_all2 (\<lambda>row entry. decrypt_entry L row (enc_key session) = Inr entry)
                 (db_entries (st_db st)) es"
      and uniform: "(\<forall>e \<in> set es. utcoffset (updatedAt e) = None)
                    \<or> (\<forall>e \<in> set es. utcoffset (updatedAt e) \<noteq> None)" for es
    using unfolded decrypt_rows_all [OF all] sort_uniform [OF uniform] by simp
  have mixed: "fst (list_entries L req st) = Inl TypeError"
    if all: "list_all2 (\<lambda>row entry. decrypt_entry L row (enc_key session) = Inr entry)
                 (db_entries (st_db st)) es"
      and naive: "\<exists>e \<in> set es. utcoffset (updatedAt e) = None"
      and aware: "\<exists>e \<in> set es. utcoffset (updatedAt e) \<noteq> None" for es
    using unfolded decrypt_rows_all [OF all] sort_mixed [OF naive aware] by simp
  have failing: "fst (list_entries L req st) = Inl e"
    if "decrypt_rows L (enc_key session) (db_entries (st_db st)) = Inl e" for e
    using unfolded that by simp
  show ?thesis
  proof (intro conjI allI impI)
    fix resp
    assume "fst (list_entries L req st) = Inr resp"
    then show "\<exists>es summaries.
               list_all2 (\<lambda>row entry. decrypt_entry L row (enc_key session) = Inr entry)
                 (db_entries (st_db st)) es
               \<and> resp = \<lparr>status_code = 200, cookie_ops = [], body = EntrySummaryList summaries\<rparr>
               \<and> mset summaries
                   = mset (map (\<lambda>e. \<lparr>s_id = entry_id e, s_title = title e,
                                      s_username = username e, s_url = url e,
                                      s_favorite = favorite e, s_updatedAt = updatedAt e\<rparr>) es)
               \<and> length summaries = length (db_entries (st_db st))
               \<and> sorted_wrt (\<lambda>a b. order_key (s_updatedAt a) \<ge> order_key (s_updatedAt b)) summaries
               \<and> (\<forall>s \<in> set summaries.
                     map fst (EntrySummary_dump L s)
                       = [''id'', ''title'', ''username'', ''url'', ''favorite'', ''updatedAt'']
                     \<and> map_of (EntrySummary_dump L s) ''password'' = None
                     \<and> map_of (EntrySummary_dump L s) ''notes'' = None)"
      by (rule listed)
  next
    fix es
    assume "list_all2 (\<lambda>row entry. decrypt_entry L row (enc_key session) = Inr entry)
                 (db_entries (st_db st)) es
               \<and> ((\<forall>e \<in> set es. utcoffset (updatedAt e) = None)
                    \<or> (\<forall>e \<in> set es. utcoffset (updatedAt e) \<noteq> None))"
    then show "\<exists>resp. fst (list_entries L req st) = Inr resp"
      using ok [of es] by (elim conjE) simp
  next
    fix es
    assume "list_all2 (\<lambda>row entry. decrypt_entry L row (enc_key session) = Inr entry)
                 (db_entries (st_db st)) es
               \<and> (\<exists>e \<in> set es. utcoffset (updatedAt e) = None)
               \<and> (\<exists>e \<in> set es. utcoffset (updatedAt e) \<noteq> None)"
    then show "fst (list_entries L req st) = Inl TypeError"
      using mixed [of es] by (elim conjE) simp
  next
    fix e
    assume "decrypt_rows L (enc_key session) (db_entries (st_db st)) = Inl e"
    then show "fst (list_entries L req st) = Inl e"
      by (rule failing)
  qed
qed

lemma st_entries_session:
  "fst (require_unlocked_session (session_request ''GET'' ''/entries'')
          (st_sessions st_entries) (st_world st_entries))
     = Inr (ref_session\<lparr>last_seen := 7000\<rparr>)"
  by code_simp

lemma st_entries_decrypt:
  "list_all2 (\<lambda>row entry. decrypt_entry ref_lib row (enc_key (ref_session\<lparr>last_seen := 7000\<rparr>))
                = Inr entry)
     (db_entries (st_db st_entries)) ref_entries
   \<and> ((\<forall>e \<in> set ref_entries. utcoffset (updatedAt e) = None)
        \<or> (\<forall>e \<in> set ref_entries. utcoffset (updatedAt e) \<noteq> None))"
  by code_simp

lemma st_entries_listed:
  "fst (list_entries ref_lib (session_request ''GET'' ''/entries'') st_entries)
     = Inr \<lparr>status_code = 200, cookie_ops = [],
            body = EntrySummaryList
              [\<lparr>s_id = ''0b8e4c6a-1d2f-4a3b-9c5d-7e6f8a9b0c1d'', s_title = ''Bank'',
                s_username = ''bob'', s_url = None, s_favorite = False,
                s_updatedAt = \<lparr>wall = 3000, utcoffset = Some 0\<rparr>\<rparr>,
               \<lparr>s_id = ''5f1c2d3e-4a5b-4c6d-8e7f-9a0b1c2d3e4f'', s_title = ''Forum'',
                s_username = ''carol'', s_url = Some ''http://forum.example.org'',
                s_favorite = False, s_updatedAt = \<lparr>wall = 2000, utcoffset = Some 0\<rparr>\<rparr>,
               \<lparr>s_id = ''96d95816-8f40-4e34-a50c-f286f7d0f2f0'', s_title = ''Email'',
                s_username = ''alice@example.com'', s_url = Some ''https://mail.example.com'',
                s_favorite = True, s_updatedAt = \<lparr>wall = 1000, utcoffset = Some 0\<rparr>\<rparr>]\<rparr>"
  by code_simp

lemma st_mixed_session:
  "fst (require_unlocked_session (session_request ''GET'' ''/entries'')
          (st_sessions st_mixed) (st_world st_mixed))
     = Inr (ref_session\<lparr>last_seen := 7000\<rparr>)"
  by code_simp

lemma st_mixed_decrypt:
  "list_all2 (\<lambda>row entry. decrypt_entry ref_lib row (enc_key (ref_session\<lparr>last_seen := 7000\<rparr>))
                = Inr entry)
     (db_entries (st_db st_mixed)) ref_entries_mixed
   \<and> (\<exists>e \<in> set ref_entries_mixed. utcoffset (updatedAt e) = None)
   \<and> (\<exists>e \<in> set ref_entries_mixed. utcoffset (updatedAt e) \<noteq> None)"
  by code_simp

lemma st_tampered_session:
  "fst (require_unlocked_session (session_request ''GET'' ''/entries'')
          (st_sessions st_tampered) (st_world st_tampered))
     = Inr (ref_session\<lparr>last_seen := 7000\<rparr>)"
  by code_simp

lemma st_tampered_decrypt:
  "decrypt_rows ref_lib (enc_key (ref_session\<lparr>last_seen := 7000\<rparr>)) (db_entries (st_db st_tampered))
     = Inl (AppError ''ENTRY_UNAVAILABLE'' ''Entry unavailable.'' 500)"
  by code_simp

theorem list_entries_summaries_witness:
  "fst (list_entries ref_lib (session_request ''GET'' ''/entries'') st_entries)
     = Inr \<lparr>status_code = 200, cookie_ops = [],
            body = EntrySummaryList
              [\<lparr>s_id = ''0b8e4c6a-1d2f-4a3b-9c5d-7e6f8a9b0c1d'', s_title = ''Bank'',
                s_username = ''bob'', s_url = None, s_favorite = False,
                s_updatedAt = \<lparr>wall = 3000, utcoffset = Some 0\<rparr>\<rparr>,
               \<lparr>s_id = ''5f1c2d3e-4a5b-4c6d-8e7f-9a0b1c2d3e4f'', s_title = ''Forum'',
                s_username = ''carol'', s_url = Some ''http://forum.example.org'',
                s_favorite = False, s_updatedAt = \<lparr>wall = 2000, utcoffset = Some 0\<rparr>\<rparr>,
               \<lparr>s_id = ''96d95816-8f40-4e34-a50c-f286f7d0f2f0'', s_title = ''Email'',
                s_username = ''alice@example.com'', s_url = Some ''https://mail.example.com'',
                s_favorite = True, s_updatedAt = \<lparr>wall = 1000, utcoffset = Some 0\<rparr>\<rparr>]\<rparr>
   \<and> sorted_wrt (\<lambda>a b. order_key (s_updatedAt a) \<ge> order_key (s_updatedAt b))
         [\<lparr>s_id = ''0b8e4c6a-1d2f-4a3b-9c5d-7e6f8a9b0c1d'', s_title = ''Bank'',
           s_username = ''bob'', s_url = None, s_favorite = False,
           s_updatedAt = \<lparr>wall = 3000, utcoffset = Some 0\<rparr>\<rparr>,
          \<lparr>s_id = ''5f1c2d3e-4a5b-4c6d-8e7f-9a0b1c2d3e4f'', s_title = ''Forum'',
           s_username = ''carol'', s_url = Some ''http://forum.example.org'',
           s_favorite = False, s_updatedAt = \<lparr>wall = 2000, utcoffset = Some 0\<rparr>\<rparr>,
          \<lparr>s_id = ''96d95816-8f40-4e34-a50c-f286f7d0f2f0'', s_title = ''Email'',
           s_username = ''alice@example.com'', s_url = Some ''https://mail.example.com'',
           s_favorite = True, s_updatedAt = \<lparr>wall = 1000, utcoffset = Some 0\<rparr>\<rparr>]
   \<and> fst (list_entries ref_lib (session_request ''GET'' ''/entries'') st_mixed) = Inl TypeError
   \<and> fst (list_entries ref_lib (session_request ''GET'' ''/entries'') st_tampered)
       = Inl (AppError ''ENTRY_UNAVAILABLE'' ''Entry unavailable.'' 500)"
proof -
  note entries = list_entries_summaries [OF st_entries_session, where L = ref_lib]
  note listed = entries [THEN conjunct1, rule_format]
  note total = entries [THEN conjunct2, THEN conjunct1, rule_format]
  obtain resp where resp: "fst (list_entries ref_lib (session_request ''GET'' ''/entries'') st_entries)
                             = Inr resp"
    using total [OF st_entries_decrypt] by (elim exE)
  obtain summaries where
    body: "resp = \<lparr>status_code = 200, cookie_ops = [], body = EntrySummaryList summaries\<rparr>"
    and srt: "sorted_wrt (\<lambda>a b. order_key (s_updatedAt a) \<ge> order_key (s_updatedAt b)) summaries"
    using listed [OF resp] by (elim exE conjE)
  have a: "summaries =
         [\<lparr>s_id = ''0b8e4c6a-1d2f-4a3b-9c5d-7e6f8a9b0c1d'', s_title = ''Bank'',
           s_username = ''bob'', s_url = None, s_favorite = False,
           s_updatedAt = \<lparr>wall = 3000, utcoffset = Some 0\<rparr>\<rparr>,
          \<lparr>s_id = ''5f1c2d3e-4a5b-4c6d-8e7f-9a0b1c2d3e4f'', s_title = ''Forum'',
           s_username = ''carol'', s_url = Some ''http://forum.example.org'',
           s_favorite = False, s_updatedAt = \<lparr>wall = 2000, utcoffset = Some 0\<rparr>\<rparr>,
          \<lparr>s_id = ''96d95816-8f40-4e34-a50c-f286f7d0f2f0'', s_title = ''Email'',
           s_username = ''alice@example.com'', s_url = Some ''https://mail.example.com'',
           s_favorite = True, s_updatedAt = \<lparr>wall = 1000, utcoffset = Some 0\<rparr>\<rparr>]"
    using resp body st_entries_listed by simp
  have b: "fst (list_entries ref_lib (session_request ''GET'' ''/entries'') st_mixed) = Inl TypeError"
    by (rule list_entries_summaries [OF st_mixed_session, where L = ref_lib,
          THEN conjunct2, THEN conjunct2, THEN conjunct1, rule_format, OF st_mixed_decrypt])
  have c: "fst (list_entries ref_lib (session_request ''GET'' ''/entries'') st_tampered)
             = Inl (AppError ''ENTRY_UNAVAILABLE'' ''Entry unavailable.'' 500)"
    by (rule list_entries_summaries [OF st_tampered_session, where L = ref_lib,
          THEN conjunct2, THEN conjunct2, THEN conjunct2, rule_format, OF st_tampered_decrypt])
  from srt have sorted_listed: "sorted_wrt (\<lambda>a b. order_key (s_updatedAt a) \<ge> order_key (s_updatedAt b))
         [\<lparr>s_id = ''0b8e4c6a-1d2f-4a3b-9c5d-7e6f8a9b0c1d'', s_title = ''Bank'',
           s_username = ''bob'', s_url = None, s_favorite = False,
           s_updatedAt = \<lparr>wall = 3000, utcoffset = Some 0\<rparr>\<rparr>,
          \<lparr>s_id = ''5f1c2d3e-4a5b-4c6d-8e7f-9a0b1c2d3e4f'', s_title = ''Forum'',
           s_username = ''carol'', s_url = Some ''http://forum.example.org'',
           s_favorite = False, s_updatedAt = \<lparr>wall = 2000, utcoffset = Some 0\<rparr>\<rparr>,
          \<lparr>s_id = ''96d95816-8f40-4e34-a50c-f286f7d0f2f0'', s_title = ''Email'',
           s_username = ''alice@example.com'', s_url = Some ''https://mail.example.com'',
           s_favorite = True, s_updatedAt = \<lparr>wall = 1000, utcoffset = Some 0\<rparr>\<rparr>]"
    unfolding a .
  show ?thesis
    by (intro conjI) (rule st_entries_listed sorted_listed b c)+
qed

section \<open>Import of a file with a bad name\<close>

lemma bad_filename_iff:
  "bad_filename file \<longleftrightarrow>
     (filename file = None \<or> (\<exists>name. filename file = Some name \<and> \<not> suffix ''.json'' (lower name)))"
proof (cases "filename file")
  case None
  then show ?thesis by (simp add: bad_filename_def)
next
  case (Some name)
  have "name = [] \<Longrightarrow> \<not> suffix ''.json'' (lower name)"
    by (simp add: lower_def)
  with Some show ?thesis by (auto simp: bad_filename_def)
qed

lemma session_resolved:
  assumes "fst (require_unlocked_session req store w) = Inr session"
  shows "\<exists>store' w'. require_unlocked_session req store w = (Inr session, store', w')
           \<and> idents w' = idents w \<and> clock w' 0 = clock w 1"
  using assms
  by (auto simp: require_unlocked_session_def get_session_def datetime_now_def Let_def
      split: prod.splits option.splits if_splits)

lemma preview_refused:
  assumes "require_unlocked_session req (st_sessions st) (st_world st) = (Inr session, store', w')"
    and "bad_filename file"
  shows "preview_import_backup L req file pw st =
     (Inr invalid_backup_response,
      \<lparr>st_db = (st_db st)\<lparr>db_audit := db_audit (st_db st) @
          [\<lparr>audit_id = idents w' 0, audit_ts = clock w' 0,
            audit_type = ''BACKUP_IMPORT_PREVIEW'', audit_outcome = ''FAILURE'',
            audit_meta = Some [(''reason'', MStr ''invalid_file_extension'')]\<rparr>]\<rparr>,
       st_sessions = store',
       st_world = w'\<lparr>clock := (\<lambda>i. clock w' (Suc i)), idents := (\<lambda>i. idents w' (Suc i))\<rparr>\<rparr>)"
  using assms
  by (simp add: preview_import_backup_def Let_def write_audit_event_def fresh_ident_def
        datetime_now_def sanitize_one benign_keys)

lemma apply_refused:
  assumes "require_unlocked_session req (st_sessions st) (st_world st) = (Inr session, store', w')"
    and "bad_filename file"
  shows "apply_import_backup L req file pw st =
     (Inr invalid_backup_response,
      \<lparr>st_db = (st_db st)\<lparr>db_audit := db_audit (st_db st) @
          [\<lparr>audit_id = idents w' 0, audit_ts = clock w' 0,
            audit_type = ''BACKUP_IMPORT_APPLY'', audit_outcome = ''FAILURE'',
            audit_meta = Some [(''reason'', MStr ''invalid_file_extension'')]\<rparr>]\<rparr>,
       st_sessions = store',
       st_world = w'\<lparr>clock := (\<lambda>i. clock w' (Suc i)), idents := (\<lambda>i. idents w' (Suc i))\<rparr>\<rparr>)"
  using assms
  by (simp add: apply_import_backup_def Let_def write_audit_event_def fresh_ident_def
        datetime_now_def sanitize_one benign_keys)

text \<open>
  C10.  For every \<open>POST /backup/import/preview\<close> or \<open>POST /backup/import/apply\<close> request in
  an unlocked session whose uploaded file has no filename or a filename not ending
  case-insensitively in \<open>.json\<close>: the response is HTTP 200 with \<open>added = 0\<close>, \<open>updated = 0\<close>,
  \<open>skipped = 0\<close>, \<open>errors = ["Invalid backup file."]\<close>; the outcome is the same for any file
  contents, any library behaviour and any password, so the contents are never read, parsed
  or decrypted; and the committed store differs from the one before only by one FAILURE
  audit event, so entries and settings are unchanged.
\<close>

theorem import_bad_filename:
  assumes "fst (require_unlocked_session req (st_sessions st) (st_world st)) = Inr session"
    and "filename file = None
         \<or> (\<exists>name. filename file = Some name \<and> \<not> suffix ''.json'' (lower name))"
  shows "fst (preview_import_backup L req file pw st)
           = Inr \<lparr>status_code = 200, cookie_ops = [],
                  body = ImportPreview \<lparr>added = 0, updated = 0, skipped = 0,
                                         errors = [''Invalid backup file.'']\<rparr>\<rparr>
       \<and> fst (apply_import_backup L req file pw st)
           = Inr \<lparr>status_code = 200, cookie_ops = [],
                  body = ImportPreview \<lparr>added = 0, updated = 0, skipped = 0,
                                         errors = [''Invalid backup file.'']\<rparr>\<rparr>
       \<and> (\<forall>L' data pw'.
             preview_import_backup L' req (file\<lparr>file_bytes := data\<rparr>) pw' st
               = preview_import_backup L req file pw st
             \<and> apply_import_backup L' req (file\<lparr>file_bytes := data\<rparr>) pw' st
               = apply_import_backup L req file pw st)
       \<and> st_db (snd (preview_import_backup L req file pw st))
             = (st_db st)\<lparr>db_audit := db_audit (st_db st) @
                 [\<lparr>audit_id = idents (st_world st) 0, audit_ts = clock (st_world st) 1,
                   audit_type = ''BACKUP_IMPORT_PREVIEW'', audit_outcome = ''FAILURE'',
                   audit_meta = Some [(''reason'', MStr ''invalid_file_extension'')]\<rparr>]\<rparr>
       \<and> st_db (snd (apply_import_backup L req file pw st))
             = (st_db st)\<lparr>db_audit := db_audit (st_db st) @
                 [\<lparr>audit_id = idents (st_world st) 0, audit_ts = clock (st_world st) 1,
                   audit_type = ''BACKUP_IMPORT_APPLY'', audit_outcome = ''FAILURE'',
                   audit_meta = Some [(''reason'', MStr ''invalid_file_extension'')]\<rparr>]\<rparr>"
proof -
  obtain store' w' where
    sess: "require_unlocked_session req (st_sessions st) (st_world st) = (Inr session, store', w')"
    and ids: "idents w' = idents (st_world st)" "clock w' 0 = clock (st_world st) 1"
    using session_resolved [OF assms(1)] by blast
  have bad: "bad_filename file"
    using assms(2) by (simp add: bad_filename_iff)
  have bad': "bad_filename (file\<lparr>file_bytes := data\<rparr>)" for data
    using bad by (simp add: bad_filename_def)
  note p = preview_refused [OF sess bad] preview_refused [OF sess bad']
  note a = apply_refused [OF sess bad] apply_refused [OF sess bad']
  show ?thesis
    by (simp add: p a ids invalid_backup_response_def)
qed

lemma preview_session:
  "fst (require_unlocked_session (session_request ''POST'' ''/backup/import/preview'')
          (st_sessions ref_state) (st_world ref_state))
     = Inr (ref_session\<lparr>last_seen := 7000\<rparr>)"
  by code_simp

lemma apply_session:
  "fst (require_unlocked_session (session_request ''POST'' ''/backup/import/apply'')
          (st_sessions ref_state) (st_world ref_state))
     = Inr (ref_session\<lparr>last_seen := 7000\<rparr>)"
  by code_simp

lemma text_upload_bad:
  "filename text_upload = None
   \<or> (\<exists>name. filename text_upload = Some name \<and> \<not> suffix ''.json'' (lower name))"
proof -
  have "\<not> suffix ''.json'' (lower ''Backup.JSON.txt'')" by code_simp
  then show ?thesis by (simp add: text_upload_def)
qed

lemma nameless_upload_bad:
  "filename nameless_upload = None
   \<or> (\<exists>name. filename nameless_upload = Some name \<and> \<not> suffix ''.json'' (lower name))"
  by (simp add: nameless_upload_def)

theorem import_bad_filename_witness:
  "fst (preview_import_backup ref_lib (session_request ''POST'' ''/backup/import/preview'')
          text_upload None ref_state)
     = Inr \<lparr>status_code = 200, cookie_ops = [],
            body = ImportPreview \<lparr>added = 0, updated = 0, skipped = 0,
                                   errors = [''Invalid backup file.'']\<rparr>\<rparr>
   \<and> fst (apply_import_backup ref_lib (session_request ''POST'' ''/backup/import/apply'')
          nameless_upload None ref_state)
     = Inr \<lparr>status_code = 200, cookie_ops = [],
            body = ImportPreview \<lparr>added = 0, updated = 0, skipped = 0,
                                   errors = [''Invalid backup file.'']\<rparr>\<rparr>"
  using import_bad_filename [OF preview_session text_upload_bad, where L = ref_lib and pw = None]
    import_bad_filename [OF apply_session nameless_upload_bad, where L = ref_lib and pw = None]
  by blast

section \<open>Backup round trip\<close>

lemma encrypt_json_ok:
  "length key = 32 \<Longrightarrow>
   encrypt_json L key obj w =
     Inr (\<lparr>nonce = fst (os_urandom 12 w),
           ciphertext = aesgcm_encrypt L key (fst (os_urandom 12 w)) (canonical_json L obj) AES_GCM_AAD\<rparr>,
          snd (os_urandom 12 w))"
  by (simp add: encrypt_json_def AES_GCM_NONCE_BYTES_def case_prod_beta)

lemma urandom_length: "length (fst (os_urandom n w)) = n"
  by (simp add: os_urandom_def)

lemma decrypt_encrypted:
  assumes "lib_contract L" "length key = 32" "bundle_survives L b"
    and "encrypt_json L key (bundle_dump L b) w = Inr (encrypted, w')"
  shows "decrypt_json L key (nonce encrypted) (ciphertext encrypted) = Inr (bundle_dump L b)"
proof -
  have enc: "encrypted = \<lparr>nonce = fst (os_urandom 12 w),
      ciphertext = aesgcm_encrypt L key (fst (os_urandom 12 w))
        (canonical_json L (bundle_dump L b)) AES_GCM_AAD\<rparr>"
    using assms(4) by (simp add: encrypt_json_ok [OF assms(2)])
  have len: "length (fst (os_urandom 12 w)) = 12" by (rule urandom_length)
  have dec: "aesgcm_decrypt L key (fst (os_urandom 12 w))
               (aesgcm_encrypt L key (fst (os_urandom 12 w)) (canonical_json L (bundle_dump L b)) AES_GCM_AAD)
               AES_GCM_AAD = Some (canonical_json L (bundle_dump L b))"
    using assms(1,2) len unfolding lib_contract_def by blast
  show ?thesis
    using assms(2,3) len dec
    by (simp add: enc decrypt_json_def AES_GCM_NONCE_BYTES_def bundle_survives_def canonical_json_def)
qed

lemma load_with_key:
  assumes "lib_contract L" "length key = 32" "bundle_survives L b"
    and "encrypt_json L key (bundle_dump L b) w = Inr (encrypted, w')"
    and "resolve_import_key L env k' pw' = Inr key"
    and "export env = \<lparr>nonce' = b64encode_str L (nonce encrypted),
                         ciphertext' = b64encode_str L (ciphertext encrypted)\<rparr>"
  shows "load_backup_bundle L env k' pw' = Inr b"
proof -
  have b64: "b64decode_strict L (b64encode_str L data) = Inr data" for data
    using assms(1) by (simp add: lib_contract_def b64decode_strict_def b64encode_str_def)
  show ?thesis
    using decrypt_encrypted [OF assms(1-4)] assms(3,5,6)
    by (simp add: load_backup_bundle_def b64 bundle_survives_def)
qed

text \<open>
  C3 (as amended).  For every list of valid entries E, settings S, 32-byte session key k and
  optional export password pw that is absent, empty, or 12 to 128 characters long:
  \<open>build_backup_envelope(E, S, k, pw)\<close> returns an envelope, and loading that envelope
  returns the bundle with entries E and settings S, with the same key k and a null (or the
  same empty) password when pw is absent or empty, and with the same password pw, whatever
  the session key, under the KDF parameters and salt recorded in the envelope when pw is
  given.
\<close>

theorem backup_roundtrip:
  assumes "lib_contract L"
    and "length k = 32"
    and "\<not> truthy pw \<or> (12 \<le> length (the pw) \<and> length (the pw) \<le> 128)"
    and "bundle_survives L \<lparr>entries = es, settings = s, exportedAt = clock w 0\<rparr>"
  shows "\<exists>env w'.
           build_backup_envelope L es s k pw w = Inr (env, w')
           \<and> (truthy pw \<longrightarrow>
                (\<forall>k'. load_backup_bundle L env k' pw
                        = Inr \<lparr>entries = es, settings = s, exportedAt = clock w 0\<rparr>))
           \<and> (\<not> truthy pw \<longrightarrow>
                load_backup_bundle L env k None
                  = Inr \<lparr>entries = es, settings = s, exportedAt = clock w 0\<rparr>
                \<and> load_backup_bundle L env k pw
                  = Inr \<lparr>entries = es, settings = s, exportedAt = clock w 0\<rparr>)"
proof -
  let ?b = "\<lparr>entries = es, settings = s, exportedAt = clock w 0\<rparr>"
  let ?w1 = "snd (datetime_now w)"
  show ?thesis
  proof (cases "truthy pw")
    case False
    obtain encrypted w4 where enc: "encrypt_json L k (bundle_dump L ?b) ?w1 = Inr (encrypted, w4)"
      using encrypt_json_ok [OF assms(2)] by blast
    let ?env = "\<lparr>version = 1, createdAt = fst (datetime_now w4), kdfParams = None, salt = None,
                  export = \<lparr>nonce' = b64encode_str L (nonce encrypted),
                             ciphertext' = b64encode_str L (ciphertext encrypted)\<rparr>,
                  note' = ''encrypted-only''\<rparr>"
    have build: "build_backup_envelope L es s k pw w = Inr (?env, snd (datetime_now w4))"
      using False assms(2) enc
      by (simp add: build_backup_envelope_def Let_def datetime_now_def case_prod_beta)
    have key: "resolve_import_key L ?env k pw' = Inr k" for pw'
      by (simp add: resolve_import_key_def)
    have "load_backup_bundle L ?env k pw' = Inr ?b" for pw'
      by (rule load_with_key [OF assms(1,2,4) enc key]) simp
    with build False show ?thesis by blast
  next
    case True
    then obtain p where pw: "pw = Some p" "p \<noteq> []" by (cases pw) auto
    have plen: "12 \<le> length p" "length p \<le> 128" using assms(3) True pw by auto
    let ?salt = "fst (os_urandom 16 ?w1)"
    let ?w2 = "snd (os_urandom 16 ?w1)"
    have slen: "length ?salt = 16" by (rule urandom_length)
    obtain raw where raw: "hash_secret_raw L (utf8_encode L p) ?salt 3 65536 4 32 = Some raw"
        "length raw = 32"
      using assms(1) slen unfolding lib_contract_def by (metis order_refl)
    let ?key = "hkdf_sha256 L 32 ''vault/backup_key/v1'' raw"
    have klen: "length ?key = 32" using assms(1) by (simp add: lib_contract_def)
    have master: "derive_master_key_raw L p ?salt DEFAULT_ARGON2_PARAMS = Inr raw"
      using plen slen raw by (simp add: derive_master_key_raw_def DEFAULT_ARGON2_PARAMS_def)
    have master': "derive_master_key_raw L p ?salt (Argon2Params_of 65536 3 4) = Inr raw"
      using plen slen raw by (simp add: derive_master_key_raw_def Argon2Params_of_def)
    have bkey: "derive_backup_key L raw = Inr ?key"
      using raw(2) by (simp add: derive_backup_key_def derive_key_def)
    obtain encrypted w4 where enc: "encrypt_json L ?key (bundle_dump L ?b) ?w2 = Inr (encrypted, w4)"
      using encrypt_json_ok [OF klen] by blast
    let ?env = "\<lparr>version = 1, createdAt = fst (datetime_now w4),
                  kdfParams = Some \<lparr>memoryCost = 65536, timeCost = 3, parallelism' = 4\<rparr>,
                  salt = Some (b64encode_str L ?salt),
                  export = \<lparr>nonce' = b64encode_str L (nonce encrypted),
                             ciphertext' = b64encode_str L (ciphertext encrypted)\<rparr>,
                  note' = ''encrypted-only''\<rparr>"
    have build: "build_backup_envelope L es s k pw w = Inr (?env, snd (datetime_now w4))"
      using True assms(2) enc master bkey pw
      by (simp add: build_backup_envelope_def Let_def datetime_now_def generate_argon2_salt_def
            DEFAULT_ARGON2_PARAMS_def case_prod_beta)
    have b64: "b64decode_strict L (b64encode_str L data) = Inr data" for data
      using assms(1) by (simp add: lib_contract_def b64decode_strict_def b64encode_str_def)
    have key: "resolve_import_key L ?env k' pw = Inr ?key" for k'
      using True pw master' bkey by (simp add: resolve_import_key_def b64 Let_def)
    have "load_backup_bundle L ?env k' pw = Inr ?b" for k'
      by (rule load_with_key [OF assms(1) klen assms(4) enc key]) simp
    with build True show ?thesis by blast
  qed
qed

lemma ref_lib_contract: "lib_contract ref_lib"
proof -
  have tag: "length (ref_tag key n aad data) = 16" for key n aad data
    by (simp add: ref_tag_def)
  have aead: "ref_decrypt key n (ref_encrypt key n data aad) aad = Some data" for key n data aad
    by (simp add: ref_decrypt_def ref_encrypt_def tag Let_def)
  have pad: "length (ref_pad n data) = n" for n data
    by (simp add: ref_pad_def)
  show ?thesis
    by (simp add: lib_contract_def ref_lib_def aead pad ref_hash_secret_raw_def)
qed

lemma ref_bundle_survives:
  "bundle_survives ref_lib
     \<lparr>entries = [entry_email, entry_bank], settings = ref_settings, exportedAt = clock ref_world 0\<rparr>"
  by code_simp

theorem backup_roundtrip_witness:
  "(\<exists>env w'. build_backup_envelope ref_lib [entry_email, entry_bank] ref_settings ref_key None ref_world
                = Inr (env, w')
      \<and> load_backup_bundle ref_lib env ref_key None
          = Inr \<lparr>entries = [entry_email, entry_bank], settings = ref_settings,
                 exportedAt = clock ref_world 0\<rparr>)
   \<and> (\<exists>env w'. build_backup_envelope ref_lib [entry_email, entry_bank] ref_settings ref_key
                  (Some ''CorrectHorseBatteryStaple!'') ref_world = Inr (env, w')
      \<and> load_backup_bundle ref_lib env [] (Some ''CorrectHorseBatteryStaple!'')
          = Inr \<lparr>entries = [entry_email, entry_bank], settings = ref_settings,
                 exportedAt = clock ref_world 0\<rparr>)"
proof -
  have key: "length ref_key = 32" by (simp add: ref_key_def)
  have absent: "\<not> truthy None \<or> (12 \<le> length (the None) \<and> length (the None) \<le> 128)"
    by simp
  have given: "\<not> truthy (Some ''CorrectHorseBatteryStaple!'')
               \<or> (12 \<le> length (the (Some ''CorrectHorseBatteryStaple!''))
                   \<and> length (the (Some ''CorrectHorseBatteryStaple!'')) \<le> 128)"
    by simp
  have is_given: "truthy (Some ''CorrectHorseBatteryStaple!'')" by simp
  have not_given: "\<not> truthy None" by simp
  have a: "\<exists>env w'. build_backup_envelope ref_lib [entry_email, entry_bank] ref_settings ref_key None
                       ref_world = Inr (env, w')
      \<and> load_backup_bundle ref_lib env ref_key None
          = Inr \<lparr>entries = [entry_email, entry_bank], settings = ref_settings,
                 exportedAt = clock ref_world 0\<rparr>"
    using backup_roundtrip [OF ref_lib_contract key absent ref_bundle_survives] not_given by blast
  have b: "\<exists>env w'. build_backup_envelope ref_lib [entry_email, entry_bank] ref_settings ref_key
                  (Some ''CorrectHorseBatteryStaple!'') ref_world = Inr (env, w')
      \<and> load_backup_bundle ref_lib env [] (Some ''CorrectHorseBatteryStaple!'')
          = Inr \<lparr>entries = [entry_email, entry_bank], settings = ref_settings,
                 exportedAt = clock ref_world 0\<rparr>"
    using backup_roundtrip [OF ref_lib_contract key given ref_bundle_survives] is_given by blast
  from a b show ?thesis by blast
qed

text \<open>
  The claim fails for an export password of 1 to 11 characters, which the export request
  admits: key derivation refuses it and no envelope is built.
\<close>

theorem backup_roundtrip_counterexample:
  "raised (build_backup_envelope ref_lib [entry_email, entry_bank] ref_settings ref_key
             (Some ''short'') ref_world)
     = Some (ValueError ''Master password must be between 12 and 128 characters.'')"
  by code_simp

end
